theory Spec2Isabelle
  imports Complex_Main
begin

section \<open>Domain exceptions\<close>

text \<open>
  Points in time are milliseconds since the epoch; \<open>new Date()\<close> is the parameter
  \<open>now\<close> of an entity method that reads the clock, and the \<open>clock\<close> of the world for a
  service.  The n-th UUID the store generates is modelled as the string \<open>saga-n\<close>.
\<close>

datatype WalletStatus = ACTIVE | FROZEN | CLOSED

datatype TransferSagaState = PENDING | DEBITED | COMPLETED | COMPENSATED | FAILED

text \<open>
  Everything the source throws.  \<open>QueryFailedError code\<close> is a driver error carrying a
  Postgres error code, \<open>GenericError msg\<close> is a plain \<open>new Error(msg)\<close>, and
  \<open>ConnectionError msg\<close> is what the driver throws when no connection to the store can
  be opened (\<open>queryRunner.connect()\<close>, \<open>queryRunner.startTransaction()\<close>).
\<close>

datatype error =
    InvalidAmountError rat string
  | WalletNotActiveError WalletStatus
  | WithdrawalLimitExceededError rat rat
  | InsufficientFundsError rat rat
  | WalletClosedError
  | NonZeroBalanceError rat
  | CurrencyMismatchError string string string string
  | NotFoundException string
  | ConflictException string
  | QueryFailedError string
  | OptimisticLockVersionMismatchError
  | GenericError string
  | ConnectionError string

text \<open>
  Values of the structured (jsonb) columns.  The text of an error message is not
  modelled: \<open>JMessage e\<close> stands for the string \<open>e.message\<close>.
\<close>

type_synonym uuid = string

datatype json =
    JString string
  | JNumber rat
  | JBool bool
  | JUndefined
  | JMessage error

type_synonym json_object = "(string \<times> json) list"

section \<open>JavaScript numbers\<close>

text \<open>
  A \<open>number\<close> of the source is an IEEE-754 double.  It is modelled as the rational it
  denotes, and \<open>double x\<close> rounds a rational to the nearest double: 53 significant bits,
  ties to the even significand.  The exponent is not bounded, so overflow, subnormal
  numbers and NaN are not modelled.  A decimal text such as \<open>0.1\<close>, in a request or read
  back from a DECIMAL column through \<open>parseFloat\<close>, denotes the number \<open>double (1 / 10)\<close>.
  Comparisons of doubles are exact.

  \<open>Wallet.withdraw\<close> decides on sums held in memory, so \<open>validateDailyLimit\<close>, \<open>withdraw\<close>
  and \<open>trackWithdrawal\<close> round each sum and difference as the machine does.  The sums of
  \<open>deposit\<close> and \<open>credit\<close> and the delay of the backoff decide nothing and are kept
  exact: for amounts of two decimals below \<open>2 ^ 53\<close> cents the exact sum is what the
  DECIMAL(20,2) column stores of the rounded one.
\<close>

function bits :: "int \<Rightarrow> int" where
  \<comment> \<open>the length of the binary numeral of a positive integer\<close>
  "bits n = (if n \<le> 0 then 0 else bits (n div 2) + 1)"
  by pat_completeness auto
termination
  by (relation "measure nat") auto

declare bits.simps [simp del]

definition exponent :: "rat \<Rightarrow> int" where
  \<comment> \<open>for \<open>0 < m\<close>: the \<open>e\<close> with \<open>2 ^ e \<le> m < 2 ^ (e + 1)\<close>\<close>
  "exponent m =
     (if 1 \<le> m then bits \<lfloor>m\<rfloor> - 1 else - bits (\<lceil>1 / m\<rceil> - 1))"

definition pow2 :: "int \<Rightarrow> rat" where
  "pow2 k = (if 0 \<le> k then 2 ^ nat k else 1 / 2 ^ nat (- k))"

definition round_half_even :: "rat \<Rightarrow> int" where
  "round_half_even y =
     (let f = \<lfloor>y\<rfloor>; d = y - of_int f
      in if d < 1 / 2 then f else if 1 / 2 < d then f + 1 else if even f then f else f + 1)"

definition double :: "rat \<Rightarrow> rat" where
  "double x =
     (if x = 0 then 0
      else (let m = \<bar>x\<bar>; e = exponent m;
                r = of_int (round_half_even (m * pow2 (52 - e))) * pow2 (e - 52)
            in if x < 0 then - r else r))"

section \<open>Wallet entity (wallet.entity.ts)\<close>

record Wallet =
  id_wallet :: string
  balance :: rat
  currency :: string
  status :: WalletStatus
  dailyWithdrawalLimit :: "rat option"
  dailyWithdrawalTotal :: rat
  lastWithdrawalDate :: "nat option"
  version :: nat

definition new_Wallet :: "string \<Rightarrow> string \<Rightarrow> Wallet" where
  "new_Wallet i c =
     \<lparr>id_wallet = i, balance = 0, currency = c, status = ACTIVE, dailyWithdrawalLimit = None,
      dailyWithdrawalTotal = 0, lastWithdrawalDate = None, version = 0\<rparr>"

text \<open>
  A method of an entity mutates the object and may throw.  It is modelled as a function
  to the pair of the thrown error (if any) and the object as the call leaves it, so that
  what a throwing call has already mutated stays visible.
\<close>

definition ensureWalletActive :: "Wallet \<Rightarrow> error option" where
  "ensureWalletActive w =
     (if status w \<noteq> ACTIVE then Some (WalletNotActiveError (status w)) else None)"

definition validatePositiveAmount :: "rat \<Rightarrow> string \<Rightarrow> error option" where
  "validatePositiveAmount amount operation =
     (if amount \<le> 0 then Some (InvalidAmountError amount operation) else None)"

definition utcDay :: "nat \<Rightarrow> nat" where
  \<comment> \<open>\<open>d.toISOString().split('T')[0]\<close>: the UTC calendar day of a point in time\<close>
  "utcDay ms = ms div 86400000"

definition getTodayDate :: "nat \<Rightarrow> nat" where
  "getTodayDate now = utcDay now"

definition resetDailyLimitIfNewDay :: "nat \<Rightarrow> Wallet \<Rightarrow> Wallet" where
  "resetDailyLimitIfNewDay now w =
     (let today = getTodayDate now;
          lastDate = map_option utcDay (lastWithdrawalDate w)
      in if lastDate \<noteq> Some today then w\<lparr>dailyWithdrawalTotal := 0\<rparr> else w)"

definition validateDailyLimit :: "rat \<Rightarrow> Wallet \<Rightarrow> error option" where
  "validateDailyLimit amount w =
     (case dailyWithdrawalLimit w of
        None \<Rightarrow> None
      | Some limit \<Rightarrow>
          (let totalAfterWithdrawal = double (dailyWithdrawalTotal w + amount)
           in if totalAfterWithdrawal > limit
              then Some (WithdrawalLimitExceededError amount limit) else None))"

definition trackWithdrawal :: "nat \<Rightarrow> rat \<Rightarrow> Wallet \<Rightarrow> Wallet" where
  "trackWithdrawal now amount w =
     w\<lparr>dailyWithdrawalTotal := double (dailyWithdrawalTotal w + amount),
       lastWithdrawalDate := Some now\<rparr>"

definition deposit :: "rat \<Rightarrow> Wallet \<Rightarrow> error option \<times> Wallet" where
  "deposit amount w =
     (case validatePositiveAmount amount ''Deposit'' of
        Some e \<Rightarrow> (Some e, w)
      | None \<Rightarrow>
         (case ensureWalletActive w of
            Some e \<Rightarrow> (Some e, w)
          | None \<Rightarrow> (None, w\<lparr>balance := balance w + amount\<rparr>)))"

definition withdraw :: "nat \<Rightarrow> rat \<Rightarrow> Wallet \<Rightarrow> error option \<times> Wallet" where
  "withdraw now amount w =
     (case validatePositiveAmount amount ''Withdrawal'' of
        Some e \<Rightarrow> (Some e, w)
      | None \<Rightarrow>
         (case ensureWalletActive w of
            Some e \<Rightarrow> (Some e, w)
          | None \<Rightarrow>
             (let w1 = resetDailyLimitIfNewDay now w
              in case validateDailyLimit amount w1 of
                   Some e \<Rightarrow> (Some e, w1)
                 | None \<Rightarrow>
                     if balance w1 < amount
                     then (Some (InsufficientFundsError (balance w1) amount), w1)
                     else (None, trackWithdrawal now amount
                                   (w1\<lparr>balance := double (balance w1 - amount)\<rparr>)))))"

definition credit :: "rat \<Rightarrow> Wallet \<Rightarrow> error option \<times> Wallet" where
  "credit amount w =
     (case validatePositiveAmount amount ''Credit'' of
        Some e \<Rightarrow> (Some e, w)
      | None \<Rightarrow>
         (case ensureWalletActive w of
            Some e \<Rightarrow> (Some e, w)
          | None \<Rightarrow> (None, w\<lparr>balance := balance w + amount\<rparr>)))"

section \<open>Transfer saga entity (transfer-saga.entity.ts)\<close>

fun assign :: "string \<Rightarrow> json \<Rightarrow> json_object \<Rightarrow> json_object" where
  \<comment> \<open>\<open>{ ...obj, k: v }\<close>: an existing key keeps its place, a new key comes last\<close>
  "assign k v [] = [(k, v)]"
| "assign k v ((k', v') # kvs) =
     (if k' = k then (k, v) # kvs else (k', v') # assign k v kvs)"

definition spread :: "json_object option \<Rightarrow> json_object" where
  \<comment> \<open>\<open>{ ...m }\<close> of a nullable object\<close>
  "spread m = (case m of None \<Rightarrow> [] | Some kvs \<Rightarrow> kvs)"

record TransferSaga =
  id_saga :: uuid
  fromWalletId :: string
  toWalletId :: string
  amount_saga :: rat
  currency_saga :: string
  state :: TransferSagaState
  metadata_saga :: "json_object option"

definition new_TransferSaga :: "string \<Rightarrow> string \<Rightarrow> rat \<Rightarrow> string \<Rightarrow> TransferSaga" where
  \<comment> \<open>the constructor; the id is generated by the store when the saga is first saved\<close>
  "new_TransferSaga f t a c =
     \<lparr>id_saga = [], fromWalletId = f, toWalletId = t, amount_saga = a, currency_saga = c,
      state = PENDING, metadata_saga = None\<rparr>"

fun state_name :: "TransferSagaState \<Rightarrow> string" where
  "state_name PENDING = ''PENDING''"
| "state_name DEBITED = ''DEBITED''"
| "state_name COMPLETED = ''COMPLETED''"
| "state_name COMPENSATED = ''COMPENSATED''"
| "state_name FAILED = ''FAILED''"

definition markAsDebited :: "TransferSaga \<Rightarrow> error option \<times> TransferSaga" where
  "markAsDebited s =
     (if state s \<noteq> PENDING
      then (Some (GenericError (''Cannot mark as debited from state: '' @ state_name (state s))), s)
      else (None, s\<lparr>state := DEBITED\<rparr>))"

definition markAsCompleted :: "TransferSaga \<Rightarrow> error option \<times> TransferSaga" where
  "markAsCompleted s =
     (if state s \<noteq> DEBITED
      then (Some (GenericError (''Cannot mark as completed from state: '' @ state_name (state s))), s)
      else (None, s\<lparr>state := COMPLETED\<rparr>))"

definition markAsCompensated :: "json \<Rightarrow> TransferSaga \<Rightarrow> error option \<times> TransferSaga" where
  "markAsCompensated err s =
     (if state s \<noteq> DEBITED
      then (Some (GenericError (''Cannot compensate from state: '' @ state_name (state s))), s)
      else (None, s\<lparr>state := COMPENSATED,
                     metadata_saga := Some (assign ''compensationReason'' err
                                             (spread (metadata_saga s)))\<rparr>))"

definition markAsFailed :: "json \<Rightarrow> TransferSaga \<Rightarrow> error option \<times> TransferSaga" where
  "markAsFailed err s =
     (None, s\<lparr>state := FAILED,
               metadata_saga := Some (assign ''failureReason'' err
                                       (spread (metadata_saga s)))\<rparr>)"

text \<open>The state-mutating operations of the saga, and the edges the data model declares.\<close>

datatype saga_op = MarkAsDebited | MarkAsCompleted | MarkAsCompensated json | MarkAsFailed json

fun apply_saga_op :: "saga_op \<Rightarrow> TransferSaga \<Rightarrow> error option \<times> TransferSaga" where
  "apply_saga_op MarkAsDebited s = markAsDebited s"
| "apply_saga_op MarkAsCompleted s = markAsCompleted s"
| "apply_saga_op (MarkAsCompensated r) s = markAsCompensated r s"
| "apply_saga_op (MarkAsFailed r) s = markAsFailed r s"

definition declared_edge :: "TransferSagaState \<Rightarrow> TransferSagaState \<Rightarrow> bool" where
  "declared_edge a b \<longleftrightarrow>
     (a, b) \<in> {(PENDING, DEBITED), (PENDING, FAILED), (DEBITED, COMPLETED),
                (DEBITED, COMPENSATED), (COMPENSATED, FAILED)}"

fun target_state :: "saga_op \<Rightarrow> TransferSagaState" where
  "target_state MarkAsDebited = DEBITED"
| "target_state MarkAsCompleted = COMPLETED"
| "target_state (MarkAsCompensated r) = COMPENSATED"
| "target_state (MarkAsFailed r) = FAILED"

section \<open>Journal, outbox and idempotency entities\<close>

datatype WalletEventType =
    WALLET_CREATED | FUNDS_DEPOSITED | FUNDS_WITHDRAWN | TRANSFER_INITIATED
  | TRANSFER_COMPLETED | TRANSFER_FAILED | TRANSFER_COMPENSATED
  | WALLET_FROZEN | WALLET_UNFROZEN | WALLET_CLOSED

record WalletEvent =
  walletId_ev :: string
  eventType_ev :: WalletEventType
  currency_ev :: string
  amount_ev :: "rat option"
  metadata_ev :: "json_object option"
  createdAt_ev :: nat

definition new_WalletEvent ::
  "string \<Rightarrow> WalletEventType \<Rightarrow> string \<Rightarrow> rat option \<Rightarrow> json_object option \<Rightarrow> WalletEvent" where
  \<comment> \<open>\<open>amount || null\<close>: an amount of 0 is stored as null; \<open>createdAt\<close> is set on insertion\<close>
  "new_WalletEvent w t c amount metadata =
     \<lparr>walletId_ev = w, eventType_ev = t, currency_ev = c,
      amount_ev = (case amount of None \<Rightarrow> None | Some a \<Rightarrow> if a = 0 then None else Some a),
      metadata_ev = metadata, createdAt_ev = 0\<rparr>"

record WalletEventMessage =
  eventType_msg :: WalletEventType
  walletId_msg :: string
  amount_msg :: "rat option"
  metadata_msg :: "json_object option"
  timestamp_msg :: nat

record OutboxEvent =
  aggregateId :: string
  eventType_ob :: WalletEventType
  payload :: WalletEventMessage
  createdAt_ob :: nat
  published :: bool

definition new_OutboxEvent :: "string \<Rightarrow> WalletEventType \<Rightarrow> WalletEventMessage \<Rightarrow> OutboxEvent" where
  "new_OutboxEvent a t p =
     \<lparr>aggregateId = a, eventType_ob = t, payload = p, createdAt_ob = 0, published = False\<rparr>"

text \<open>The response stored in an idempotency record: what a deposit or withdrawal
  returns, or the result of a transfer.\<close>

datatype response =
    BalanceResponse rat string
  | TransferResult uuid TransferSagaState string string rat

fun response_balance :: "response \<Rightarrow> rat option" where
  \<comment> \<open>\<open>result.balance\<close>, undefined on a response of the other shape\<close>
  "response_balance (BalanceResponse b w) = Some b"
| "response_balance (TransferResult i s f t a) = None"

section \<open>The store and its transactions\<close>

text \<open>
  The store holds the five tables the operations touch, and the log of its committed
  transactions: one entry per commit, listing the writes of that transaction in order.
  \<open>saga_seq\<close> counts the saga ids generated so far.  Row locks, the ORM's version
  counter and its update timestamps are outside the model.
\<close>

datatype store_write =
    WalletWrite string
  | EventInsert string WalletEventType
  | SagaWrite uuid TransferSagaState
  | OutboxInsert string WalletEventType
  | IdempotencyInsert string

record database =
  wallets :: "string \<rightharpoonup> Wallet"
  wallet_events :: "WalletEvent list"
  transfer_sagas :: "uuid \<rightharpoonup> TransferSaga"
  saga_seq :: nat
  idempotency_keys :: "string \<rightharpoonup> response"
  outbox_events :: "OutboxEvent list"
  committed :: "store_write list list"

text \<open>An open transaction: the store as the transaction sees it, the writes made so
  far, and the coordinator's buffer of events to publish.\<close>

record tx =
  view :: database
  writes :: "store_write list"
  eventsToPublish :: "OutboxEvent list"

definition begin_tx :: "database \<Rightarrow> tx" where
  "begin_tx d = \<lparr>view = d, writes = [], eventsToPublish = []\<rparr>"

definition commit :: "tx \<Rightarrow> database" where
  "commit t = (view t)\<lparr>committed := committed (view t) @ [writes t]\<rparr>"

definition save_wallet :: "Wallet \<Rightarrow> tx \<Rightarrow> tx" where
  "save_wallet w t =
     t\<lparr>view := (view t)\<lparr>wallets := (wallets (view t))(id_wallet w \<mapsto> w)\<rparr>,
       writes := writes t @ [WalletWrite (id_wallet w)]\<rparr>"

definition save_event :: "nat \<Rightarrow> WalletEvent \<Rightarrow> tx \<Rightarrow> tx" where
  "save_event now e t =
     t\<lparr>view := (view t)\<lparr>wallet_events := wallet_events (view t) @ [e\<lparr>createdAt_ev := now\<rparr>]\<rparr>,
       writes := writes t @ [EventInsert (walletId_ev e) (eventType_ev e)]\<rparr>"

definition digit :: "nat \<Rightarrow> char" where
  "digit d = ''0123456789'' ! d"

fun show_nat :: "nat \<Rightarrow> string" where
  \<comment> \<open>the decimal numeral of a natural number\<close>
  "show_nat n = (if n < 10 then [digit n] else show_nat (n div 10) @ [digit (n mod 10)])"

definition find_saga :: "uuid \<Rightarrow> database \<Rightarrow> TransferSaga option" where
  "find_saga i d = transfer_sagas d i"

definition save_saga :: "TransferSaga \<Rightarrow> tx \<Rightarrow> tx" where
  \<comment> \<open>saving a saga that was loaded from the store updates its row\<close>
  "save_saga s t =
     t\<lparr>view := (view t)\<lparr>transfer_sagas := (transfer_sagas (view t))(id_saga s \<mapsto> s)\<rparr>,
       writes := writes t @ [SagaWrite (id_saga s) (state s)]\<rparr>"

definition insert_saga :: "TransferSaga \<Rightarrow> tx \<Rightarrow> TransferSaga \<times> tx" where
  \<comment> \<open>saving a new saga inserts it under a generated id\<close>
  "insert_saga s t =
     (let s' = s\<lparr>id_saga := ''saga-'' @ show_nat (saga_seq (view t))\<rparr>
      in (s', t\<lparr>view := (view t)\<lparr>transfer_sagas := (transfer_sagas (view t))(id_saga s' \<mapsto> s'),
                                   saga_seq := Suc (saga_seq (view t))\<rparr>,
                writes := writes t @ [SagaWrite (id_saga s') (state s')]\<rparr>))"

definition save_idempotency :: "string \<Rightarrow> response \<Rightarrow> tx \<Rightarrow> tx" where
  "save_idempotency requestId resp t =
     t\<lparr>view := (view t)\<lparr>idempotency_keys := (idempotency_keys (view t))(requestId \<mapsto> resp)\<rparr>,
       writes := writes t @ [IdempotencyInsert requestId]\<rparr>"

definition saveAll :: "nat \<Rightarrow> OutboxEvent list \<Rightarrow> tx \<Rightarrow> tx" where
  "saveAll now evs t =
     t\<lparr>view := (view t)\<lparr>outbox_events :=
                 outbox_events (view t) @ map (\<lambda>e. e\<lparr>createdAt_ob := now\<rparr>) evs\<rparr>,
       writes := writes t @ map (\<lambda>e. OutboxInsert (aggregateId e) (eventType_ob e)) evs\<rparr>"

definition publishEvent :: "OutboxEvent \<Rightarrow> tx \<Rightarrow> tx" where
  \<comment> \<open>\<open>ctx.publishEvent\<close>: appends to the in-memory buffer\<close>
  "publishEvent e t = t\<lparr>eventsToPublish := eventsToPublish t @ [e]\<rparr>"

section \<open>The world around the store\<close>

datatype redis_value = RString string | RNumber rat | RUndefined

text \<open>
  The cache/lock service maps a key to its value and the expiry (in seconds) it was set
  with; the passing of time is not modelled.  \<open>broker\<close> lists the messages published to
  the exchange, \<open>connected\<close> says whether the publisher has a channel.  \<open>faults\<close> is the
  script of store failures: every block run by the coordinator takes the next entry, and
  \<open>Some e\<close> means the store raised \<open>e\<close> for that block: a \<open>ConnectionError\<close> when the
  coordinator opens the connection and starts the transaction, any other error inside
  the transaction.  \<open>random\<close> is the stream
  of values \<open>Math.random()\<close> returns, \<open>sleeps\<close> records the delays slept.
\<close>

record world =
  db :: database
  redis :: "string \<rightharpoonup> redis_value \<times> nat"
  broker :: "WalletEventMessage list"
  connected :: bool
  faults :: "error option list"
  random :: "rat list"
  sleeps :: "rat list"
  clock :: nat
  maxRetries :: nat
  initialBackoffMs :: rat

definition truthy :: "string option \<Rightarrow> bool" where
  \<comment> \<open>\<open>if (s)\<close> on an optional string: undefined and the empty string are falsy\<close>
  "truthy s = (case s of None \<Rightarrow> False | Some x \<Rightarrow> x \<noteq> [])"

definition autocommit :: "(tx \<Rightarrow> tx) \<Rightarrow> world \<Rightarrow> world" where
  \<comment> \<open>a repository call made without a transaction handle commits on its own\<close>
  "autocommit f w = w\<lparr>db := commit (f (begin_tx (db w)))\<rparr>"

section \<open>Event publisher (event-publisher.service.ts)\<close>

definition publish :: "WalletEventMessage \<Rightarrow> world \<Rightarrow> error option \<times> world" where
  "publish event w =
     (if \<not> connected w then (Some (GenericError ''EventPublisher not connected''), w)
      else (None, w\<lparr>broker := broker w @ [event]\<rparr>))"

section \<open>Transaction coordinator (transaction-manager.service.ts)\<close>

definition publishEventsAsync :: "OutboxEvent list \<Rightarrow> world \<Rightarrow> world" where
  \<comment> \<open>fire and forget: a failing publish is logged and dropped\<close>
  "publishEventsAsync events w =
     foldl (\<lambda>w' e. snd (publish (payload e) w')) w events"

definition transaction :: "(tx \<Rightarrow> error + ('a \<times> tx)) \<Rightarrow> world \<Rightarrow> (error + 'a) \<times> world" where
  \<comment> \<open>the \<open>try\<close> block of \<open>execute\<close>: run, save the outbox rows, commit; roll back on a throw\<close>
  "transaction operation w =
     (case faults w of
        Some e # rest \<Rightarrow> (Inl e, w\<lparr>faults := rest\<rparr>)
      | _ \<Rightarrow>
        (let w1 = w\<lparr>faults := tl (faults w)\<rparr>
         in case operation (begin_tx (db w1)) of
              Inl e \<Rightarrow> (Inl e, w1)
            | Inr (result, t) \<Rightarrow>
                (let t1 = (if eventsToPublish t \<noteq> []
                           then saveAll (clock w1) (eventsToPublish t) t else t);
                     w2 = w1\<lparr>db := commit t1\<rparr>
                 in (Inr result, publishEventsAsync (eventsToPublish t) w2))))"

definition no_store_fault :: "world \<Rightarrow> bool" where
  \<comment> \<open>the store raises no error of its own in the next block\<close>
  "no_store_fault w = (case faults w of Some e # rest \<Rightarrow> False | _ \<Rightarrow> True)"

fun is_ConnectionError :: "error \<Rightarrow> bool" where
  "is_ConnectionError (ConnectionError msg) = True"
| "is_ConnectionError e = False"

definition startTransaction :: "world \<Rightarrow> error option \<times> world" where
  \<comment> \<open>\<open>createQueryRunner()\<close>, \<open>connect()\<close>, \<open>startTransaction(isolationLevel)\<close>\<close>
  "startTransaction w =
     (case faults w of
        Some e # rest \<Rightarrow> if is_ConnectionError e then (Some e, w\<lparr>faults := rest\<rparr>) else (None, w)
      | _ \<Rightarrow> (None, w))"

text \<open>
  \<open>execute\<close> takes the lock, then opens the transaction, and only then enters its
  \<open>try\<close> block: the \<open>finally\<close> that releases the lock does not cover a throw of
  \<open>startTransaction\<close>.
\<close>

definition execute ::
  "(tx \<Rightarrow> error + ('a \<times> tx)) \<Rightarrow> string option \<Rightarrow> nat \<Rightarrow> world \<Rightarrow> (error + 'a) \<times> world" where
  "execute operation lockKey lockTtl w =
     (if truthy lockKey \<and> redis w (the lockKey) \<noteq> None
      then (Inl (ConflictException ''Concurrent request in progress''), w)
      else
        (let w1 = (if truthy lockKey
                   then w\<lparr>redis := (redis w)(the lockKey \<mapsto> (RString ''PROCESSING'', lockTtl))\<rparr>
                   else w)
         in case startTransaction w1 of
              (Some e, w2) \<Rightarrow> (Inl e, w2)
            | (None, w2) \<Rightarrow>
               (let (r, w3) = transaction operation w2;
                    w4 = (if truthy lockKey
                          then w3\<lparr>redis := (redis w3)(the lockKey := None)\<rparr> else w3)
                in (r, w4))))"

section \<open>Wallet repository (wallet.repository.ts)\<close>

definition saveWithEvent ::
  "nat \<Rightarrow> Wallet \<Rightarrow> WalletEventType \<Rightarrow> rat option \<Rightarrow> json_object option \<Rightarrow> tx \<Rightarrow> tx" where
  "saveWithEvent now wallet eventType amount metadata t =
     save_event now (new_WalletEvent (id_wallet wallet) eventType (currency wallet) amount metadata)
       (save_wallet wallet t)"

definition getOrCreate_tx :: "nat \<Rightarrow> string \<Rightarrow> string \<Rightarrow> tx \<Rightarrow> error + (Wallet \<times> tx)" where
  \<comment> \<open>\<open>getOrCreate\<close> on a transaction handle\<close>
  "getOrCreate_tx now i c t =
     (case wallets (view t) i of
        Some wallet \<Rightarrow> Inr (wallet, t)
      | None \<Rightarrow>
         (let t1 = t\<lparr>view := (view t)\<lparr>wallets := (wallets (view t))(i \<mapsto> new_Wallet i c)\<rparr>,
                     writes := writes t @ [WalletWrite i]\<rparr>
          in case wallets (view t1) i of
               None \<Rightarrow> Inl (GenericError (''Failed to retrieve or create wallet with ID: '' @ i))
             | Some wallet \<Rightarrow>
                 (let existingEvents =
                        length (filter (\<lambda>e. walletId_ev e = i) (wallet_events (view t1)));
                      t2 = (if existingEvents = 0
                            then save_event now (new_WalletEvent i WALLET_CREATED c None None) t1
                            else t1)
                  in Inr (wallet, t2))))"

definition getOrCreate :: "string \<Rightarrow> string \<Rightarrow> world \<Rightarrow> (error + Wallet) \<times> world" where
  \<comment> \<open>\<open>getOrCreate\<close> without a handle: \<open>runInTransaction\<close>\<close>
  "getOrCreate i c w =
     (case getOrCreate_tx (clock w) i c (begin_tx (db w)) of
        Inl e \<Rightarrow> (Inl e, w)
      | Inr (wallet, t) \<Rightarrow> (Inr wallet, w\<lparr>db := commit t\<rparr>))"

definition getEventHistory :: "string \<Rightarrow> nat \<Rightarrow> nat \<Rightarrow> database \<Rightarrow> WalletEvent list" where
  \<comment> \<open>\<open>find({where: {walletId}, order: {createdAt: 'DESC'}, take: limit, skip: offset})\<close>\<close>
  "getEventHistory walletId limit offset d =
     take limit (drop offset
       (rev (sort_key createdAt_ev
          (filter (\<lambda>e. walletId_ev e = walletId) (wallet_events d)))))"

section \<open>Wallet service and controller (wallet.service.ts, wallet.controller.ts)\<close>

definition json_of_requestId :: "string option \<Rightarrow> json" where
  "json_of_requestId r = (case r of None \<Rightarrow> JUndefined | Some s \<Rightarrow> JString s)"

definition getBalanceCacheKey :: "string \<Rightarrow> string" where
  "getBalanceCacheKey walletId = ''wallet:balance:'' @ walletId"

definition setBalanceCache :: "string \<Rightarrow> rat option \<Rightarrow> world \<Rightarrow> world" where
  \<comment> \<open>\<open>CACHE_TTL\<close> is 30 seconds\<close>
  "setBalanceCache walletId b w =
     w\<lparr>redis := (redis w)(getBalanceCacheKey walletId \<mapsto>
                    ((case b of None \<Rightarrow> RUndefined | Some x \<Rightarrow> RNumber x), 30))\<rparr>"

definition invalidateBalanceCache :: "string \<Rightarrow> world \<Rightarrow> world" where
  "invalidateBalanceCache walletId w =
     w\<lparr>redis := (redis w)(getBalanceCacheKey walletId := None)\<rparr>"

definition idempotentBlock ::
  "nat \<Rightarrow> string \<Rightarrow> rat \<Rightarrow> WalletEventType \<Rightarrow> (Wallet \<Rightarrow> error option \<times> Wallet) \<Rightarrow>
   string option \<Rightarrow> bool \<Rightarrow> tx \<Rightarrow> error + (response \<times> tx)" where
  \<comment> \<open>the closure \<open>executeIdempotentTransaction\<close> hands to the coordinator\<close>
  "idempotentBlock now walletId amount eventType operation requestId autoCreateWallet t =
     (case (if autoCreateWallet then getOrCreate_tx now walletId ''USD'' t
            else (case wallets (view t) walletId of
                    None \<Rightarrow> Inl (GenericError (''Wallet '' @ walletId @ '' not found''))
                  | Some wallet \<Rightarrow> Inr (wallet, t))) of
        Inl e \<Rightarrow> Inl e
      | Inr (wallet, t1) \<Rightarrow>
         (case operation wallet of
            (Some e, wallet') \<Rightarrow> Inl e
          | (None, wallet') \<Rightarrow>
             (let t2 = saveWithEvent now wallet' eventType (Some amount)
                         (Some [(''requestId'', json_of_requestId requestId)]) t1;
                  t3 = publishEvent
                         (new_OutboxEvent walletId eventType
                            \<lparr>eventType_msg = eventType, walletId_msg = walletId,
                             amount_msg = Some amount,
                             metadata_msg = Some [(''requestId'', json_of_requestId requestId)],
                             timestamp_msg = now\<rparr>) t2;
                  result = BalanceResponse (balance wallet') (id_wallet wallet');
                  t4 = (if truthy requestId
                        then save_idempotency (the requestId) result t3 else t3)
              in Inr (result, t4))))"

definition executeIdempotentTransaction ::
  "string \<Rightarrow> rat \<Rightarrow> WalletEventType \<Rightarrow> (Wallet \<Rightarrow> error option \<times> Wallet) \<Rightarrow>
   string option \<Rightarrow> bool \<Rightarrow> world \<Rightarrow> (error + response) \<times> world" where
  "executeIdempotentTransaction walletId amount eventType operation requestId autoCreateWallet w =
     (case (if truthy requestId then idempotency_keys (db w) (the requestId) else None) of
        Some existing \<Rightarrow> (Inr existing, w)
      | None \<Rightarrow>
         (let lockKey = (if truthy requestId then Some (''lock:req:'' @ the requestId) else None)
          in execute
               (idempotentBlock (clock w) walletId amount eventType operation requestId
                  autoCreateWallet)
               lockKey 60 w))"

definition WalletService_deposit ::
  "string \<Rightarrow> rat \<Rightarrow> string option \<Rightarrow> world \<Rightarrow> (error + response) \<times> world" where
  "WalletService_deposit walletId amount requestId w =
     (case executeIdempotentTransaction walletId amount FUNDS_DEPOSITED (deposit amount)
             requestId True w of
        (Inl e, w1) \<Rightarrow> (Inl e, w1)
      | (Inr result, w1) \<Rightarrow> (Inr result, setBalanceCache walletId (response_balance result) w1))"

definition WalletService_withdraw ::
  "string \<Rightarrow> rat \<Rightarrow> string option \<Rightarrow> world \<Rightarrow> (error + response) \<times> world" where
  "WalletService_withdraw walletId amount requestId w =
     (case executeIdempotentTransaction walletId amount FUNDS_WITHDRAWN
             (withdraw (clock w) amount) requestId False w of
        (Inl e, w1) \<Rightarrow> (Inl e, w1)
      | (Inr result, w1) \<Rightarrow> (Inr result, setBalanceCache walletId (response_balance result) w1))"

definition WalletService_getHistory :: "string \<Rightarrow> nat \<Rightarrow> nat \<Rightarrow> database \<Rightarrow> WalletEvent list" where
  \<comment> \<open>\<open>amount: event.amount ? Number(event.amount) : null\<close>\<close>
  "WalletService_getHistory walletId limit offset d =
     map (\<lambda>event. event\<lparr>amount_ev :=
                      (case amount_ev event of
                         None \<Rightarrow> None
                       | Some a \<Rightarrow> if a = 0 then None else Some a)\<rparr>)
       (getEventHistory walletId limit offset d)"

definition WalletController_getHistory ::
  "string \<Rightarrow> nat option \<Rightarrow> nat option \<Rightarrow> database \<Rightarrow> WalletEvent list" where
  \<comment> \<open>\<open>query.limit || 100\<close>, \<open>query.offset || 0\<close>: a missing or zero value takes the default\<close>
  "WalletController_getHistory walletId query_limit query_offset d =
     (let limit = (case query_limit of None \<Rightarrow> 100 | Some l \<Rightarrow> if l = 0 then 100 else l);
          offset = (case query_offset of None \<Rightarrow> 0 | Some k \<Rightarrow> if k = 0 then 0 else k)
      in WalletService_getHistory walletId limit offset d)"

section \<open>Transfer saga service (transfer-saga.service.ts)\<close>

definition isRetryableError :: "error \<Rightarrow> bool" where
  \<comment> \<open>serialization failure 40001, deadlock 40P01, unique violation 23505, optimistic lock\<close>
  "isRetryableError e =
     (case e of
        QueryFailedError code \<Rightarrow> code = ''40001'' \<or> code = ''40P01'' \<or> code = ''23505''
      | OptimisticLockVersionMismatchError \<Rightarrow> True
      | _ \<Rightarrow> False)"

definition Math_random :: "world \<Rightarrow> rat \<times> world" where
  "Math_random w = (case random w of [] \<Rightarrow> (0, w) | r # rs \<Rightarrow> (r, w\<lparr>random := rs\<rparr>))"

definition sleep :: "rat \<Rightarrow> world \<Rightarrow> world" where
  "sleep ms w = w\<lparr>sleeps := sleeps w @ [ms]\<rparr>"

definition performExponentialBackoff :: "nat \<Rightarrow> rat \<Rightarrow> world \<Rightarrow> world" where
  "performExponentialBackoff attempt initialBackoff w =
     (let backoffMultiplier = 2 ^ attempt;
          backoffMs = min (backoffMultiplier * initialBackoff) 5000;
          (r, w1) = Math_random w;
          jitter = r * 100
      in sleep (backoffMs + jitter) w1)"

fun retry_from ::
  "nat \<Rightarrow> nat \<Rightarrow> rat \<Rightarrow> (world \<Rightarrow> (error + 'a) \<times> world) \<Rightarrow> world \<Rightarrow> (error + 'a) \<times> world" where
  \<comment> \<open>the loop \<open>for (attempt; attempt < maxRetries; attempt++)\<close>, by the attempts left\<close>
  "retry_from 0 attempt initialBackoff operation w =
     (Inl (GenericError ''Operation failed due to concurrent modification. Please retry.''), w)"
| "retry_from (Suc left) attempt initialBackoff operation w =
     (case operation w of
        (Inr r, w1) \<Rightarrow> (Inr r, w1)
      | (Inl e, w1) \<Rightarrow>
          if isRetryableError e
          then retry_from left (Suc attempt) initialBackoff operation
                 (performExponentialBackoff attempt initialBackoff w1)
          else (Inl e, w1))"

definition executeWithRetry ::
  "(world \<Rightarrow> (error + 'a) \<times> world) \<Rightarrow> world \<Rightarrow> (error + 'a) \<times> world" where
  "executeWithRetry operation w = retry_from (maxRetries w) 0 (initialBackoffMs w) operation w"

definition stepBlock ::
  "nat \<Rightarrow> uuid \<Rightarrow> string \<Rightarrow> rat \<Rightarrow> (Wallet \<Rightarrow> error option \<times> Wallet) \<Rightarrow> WalletEventType \<Rightarrow>
   json_object \<Rightarrow> (TransferSaga \<Rightarrow> error option \<times> TransferSaga) option \<Rightarrow>
   tx \<Rightarrow> error + (unit \<times> tx)" where
  \<comment> \<open>the closure \<open>executeTransactionalStep\<close> hands to the coordinator\<close>
  "stepBlock now sagaId walletId amount operation eventType eventMetadata updateSaga t =
     (case wallets (view t) walletId of
        None \<Rightarrow> Inl (NotFoundException (''Wallet '' @ walletId @ '' not found''))
      | Some wallet \<Rightarrow>
         (case operation wallet of
            (Some e, wallet') \<Rightarrow> Inl e
          | (None, wallet') \<Rightarrow>
             (let t1 = save_wallet wallet' t
              in case find_saga sagaId (view t1) of
                   None \<Rightarrow> Inl (NotFoundException (''Saga '' @ sagaId @ '' not found''))
                 | Some saga \<Rightarrow>
                    (case (case updateSaga of
                             None \<Rightarrow> Inr t1
                           | Some f \<Rightarrow>
                               (case f saga of
                                  (Some e, saga') \<Rightarrow> Inl e
                                | (None, saga') \<Rightarrow> Inr (save_saga saga' t1))) of
                       Inl e \<Rightarrow> Inl e
                     | Inr t2 \<Rightarrow>
                        (let event = new_WalletEvent walletId eventType (currency wallet')
                                       (Some amount) (Some eventMetadata);
                             t3 = save_event now event t2;
                             t4 = publishEvent
                                    (new_OutboxEvent walletId eventType
                                       \<lparr>eventType_msg = eventType, walletId_msg = walletId,
                                        amount_msg = Some amount,
                                        metadata_msg = Some eventMetadata,
                                        timestamp_msg = now\<rparr>) t3
                         in Inr ((), t4))))))"

definition executeTransactionalStep ::
  "uuid \<Rightarrow> string \<Rightarrow> rat \<Rightarrow> (Wallet \<Rightarrow> error option \<times> Wallet) \<Rightarrow> WalletEventType \<Rightarrow>
   json_object \<Rightarrow> (TransferSaga \<Rightarrow> error option \<times> TransferSaga) option \<Rightarrow>
   world \<Rightarrow> (error + unit) \<times> world" where
  "executeTransactionalStep sagaId walletId amount operation eventType eventMetadata updateSaga w =
     executeWithRetry
       (\<lambda>w'. execute
                (stepBlock (clock w') sagaId walletId amount operation eventType eventMetadata
                   updateSaga)
                None 60 w')
       w"

definition debitFromSender :: "TransferSaga \<Rightarrow> world \<Rightarrow> error option \<times> world" where
  "debitFromSender saga w =
     (case executeTransactionalStep (id_saga saga) (fromWalletId saga) (amount_saga saga)
             (withdraw (clock w) (amount_saga saga)) FUNDS_WITHDRAWN
             [(''sagaId'', JString (id_saga saga)), (''transferTo'', JString (toWalletId saga))]
             (Some markAsDebited) w of
        (Inl e, w1) \<Rightarrow> (Some e, w1)
      | (Inr u, w1) \<Rightarrow> (None, invalidateBalanceCache (fromWalletId saga) w1))"

definition creditToReceiver :: "TransferSaga \<Rightarrow> world \<Rightarrow> error option \<times> world" where
  "creditToReceiver saga w =
     (case executeTransactionalStep (id_saga saga) (toWalletId saga) (amount_saga saga)
             (credit (amount_saga saga)) FUNDS_DEPOSITED
             [(''sagaId'', JString (id_saga saga)), (''transferFrom'', JString (fromWalletId saga))]
             None w of
        (Inl e, w1) \<Rightarrow> (Some e, w1)
      | (Inr u, w1) \<Rightarrow> (None, invalidateBalanceCache (toWalletId saga) w1))"

definition compensate :: "uuid \<Rightarrow> string \<Rightarrow> rat \<Rightarrow> json \<Rightarrow> world \<Rightarrow> error option \<times> world" where
  \<comment> \<open>the \<open>catch\<close> of \<open>compensate\<close> logs and rethrows\<close>
  "compensate sagaId fromId amount errorMessage w =
     (case executeTransactionalStep sagaId fromId amount (credit amount) TRANSFER_COMPENSATED
             [(''sagaId'', JString sagaId), (''reason'', errorMessage)]
             (Some (markAsCompensated errorMessage)) w of
        (Inl e, w1) \<Rightarrow> (Some e, w1)
      | (Inr u, w1) \<Rightarrow>
          publish \<lparr>eventType_msg = TRANSFER_FAILED, walletId_msg = fromId,
                   amount_msg = Some amount,
                   metadata_msg = Some [(''sagaId'', JString sagaId), (''reason'', errorMessage)],
                   timestamp_msg = clock w1\<rparr> w1)"

definition transferTry ::
  "string \<Rightarrow> string \<Rightarrow> rat \<Rightarrow> string option \<Rightarrow> TransferSaga \<Rightarrow> world \<Rightarrow> (error + response) \<times> world" where
  \<comment> \<open>the \<open>try\<close> block of \<open>executeTransfer\<close>\<close>
  "transferTry fromId toId amount requestId saga w =
     (case debitFromSender saga w of
        (Some e, w1) \<Rightarrow> (Inl e, w1)
      | (None, w1) \<Rightarrow>
     (case find_saga (id_saga saga) (db w1) of
        None \<Rightarrow> (Inl (GenericError (''Saga '' @ id_saga saga @ '' not found after debit'')), w1)
      | Some updatedSaga \<Rightarrow>
     (case creditToReceiver updatedSaga w1 of
        (Some e, w2) \<Rightarrow> (Inl e, w2)
      | (None, w2) \<Rightarrow>
     (case find_saga (id_saga saga) (db w2) of
        None \<Rightarrow> (Inl (GenericError (''Saga '' @ id_saga saga @ '' not found after credit'')), w2)
      | Some finalSaga \<Rightarrow>
     (case markAsCompleted finalSaga of
        (Some e, finalSaga') \<Rightarrow> (Inl e, w2)
      | (None, finalSaga') \<Rightarrow>
     (case publish \<lparr>eventType_msg = TRANSFER_COMPLETED, walletId_msg = fromId,
                    amount_msg = Some amount,
                    metadata_msg = Some [(''sagaId'', JString (id_saga saga)),
                                         (''toWalletId'', JString toId)],
                    timestamp_msg = clock w2\<rparr>
             (autocommit (save_saga finalSaga') w2) of
        (Some e, w3) \<Rightarrow> (Inl e, w3)
      | (None, w3) \<Rightarrow>
         (let result = TransferResult (id_saga finalSaga') (state finalSaga')
                         (fromWalletId finalSaga') (toWalletId finalSaga') (amount_saga finalSaga')
          in (Inr result,
              if truthy requestId
              then autocommit (save_idempotency (the requestId) result) w3 else w3))))))))"

definition transferCatch :: "error \<Rightarrow> TransferSaga \<Rightarrow> world \<Rightarrow> (error + response) \<times> world" where
  \<comment> \<open>the \<open>catch\<close> block of \<open>executeTransfer\<close>\<close>
  "transferCatch err saga w =
     (case find_saga (id_saga saga) (db w) of
        None \<Rightarrow> (Inl (GenericError (''Saga '' @ id_saga saga @ '' not found during error handling'')), w)
      | Some currentSaga \<Rightarrow>
          if state currentSaga = DEBITED
          then (case compensate (id_saga currentSaga) (fromWalletId currentSaga)
                       (amount_saga currentSaga) (JMessage err) w of
                  (Some e, w1) \<Rightarrow> (Inl e, w1)
                | (None, w1) \<Rightarrow> (Inl err, w1))
          else (Inl err, autocommit (save_saga (snd (markAsFailed (JMessage err) currentSaga))) w))"

definition executeTransfer ::
  "string \<Rightarrow> string \<Rightarrow> rat \<Rightarrow> string option \<Rightarrow> world \<Rightarrow> (error + response) \<times> world" where
  "executeTransfer fromId toId amount requestId w =
     (case (if truthy requestId then idempotency_keys (db w) (the requestId) else None) of
        Some existing \<Rightarrow> (Inr existing, w)
      | None \<Rightarrow>
     if fromId = toId then (Inl (GenericError ''Cannot transfer to the same wallet''), w)
     else
     (case wallets (db w) fromId of
        None \<Rightarrow> (Inl (NotFoundException (''Wallet '' @ fromId @ '' not found'')), w)
      | Some fromWallet \<Rightarrow>
     (case getOrCreate toId (currency fromWallet) w of
        (Inl e, w1) \<Rightarrow> (Inl e, w1)
      | (Inr toWallet, w1) \<Rightarrow>
     if currency toWallet \<noteq> currency fromWallet
     then (Inl (CurrencyMismatchError (currency fromWallet) (currency toWallet) fromId toId), w1)
     else
     (case insert_saga (new_TransferSaga fromId toId amount (currency fromWallet))
             (begin_tx (db w1)) of
        (saga, t) \<Rightarrow>
     (case publish \<lparr>eventType_msg = TRANSFER_INITIATED, walletId_msg = fromId,
                    amount_msg = Some amount,
                    metadata_msg = Some [(''sagaId'', JString (id_saga saga)),
                                         (''toWalletId'', JString toId),
                                         (''requestId'', json_of_requestId requestId)],
                    timestamp_msg = clock w1\<rparr>
             (w1\<lparr>db := commit t\<rparr>) of
        (Some e, w2) \<Rightarrow> (Inl e, w2)
      | (None, w2) \<Rightarrow>
     (case transferTry fromId toId amount requestId saga w2 of
        (Inr result, w3) \<Rightarrow> (Inr result, w3)
      | (Inl err, w3) \<Rightarrow> transferCatch err saga w3))))))"

section \<open>Fraud detection consumer (fraud-detection.consumer.ts)\<close>

text \<open>
  The consumer is a process of its own, with its own view of the cache and of the alert
  table.  A payload is what \<open>JSON.parse\<close> gives for a message; amounts are modelled for
  integral values, whose JavaScript rendering is the decimal numeral.  The digest
  \<open>crypto.createHash('sha256').update(s).digest('hex')\<close> and the parsing of a date
  \<open>new Date(s).getTime()\<close> are library functions: they are the parameters \<open>H\<close> and
  \<open>T\<close>.  A sorted set whose members are the decimal renderings of their scores is
  held as the list of its scores.  \<open>redis_fault\<close> is the error the cache raises, if it
  is failing.
\<close>

record WalletEventPayload =
  walletId_p :: string
  eventType_p :: string
  amount_p :: "nat option"
  timestamp_p :: string

record AmqpMessage =
  content :: "WalletEventPayload option"
  retry_count :: "nat option"
  routingKey :: string

record FraudAlert =
  walletId_fa :: string
  alertType :: string
  details :: json_object

datatype channel_action = Ack | Nack bool bool | SendToQueue string nat

record fraud_config =
  fraudDetectionQueue :: string
  fraudDetectionThreshold :: nat
  fraudDetectionMaxWithdrawals :: nat
  fraudDetectionTimeWindowMinutes :: nat

record consumer =
  kv :: "string \<rightharpoonup> string \<times> nat"
  zsets :: "string \<rightharpoonup> int list"
  expiry :: "string \<rightharpoonup> nat"
  alerts :: "FraudAlert list"
  channel :: "channel_action list"
  redis_fault :: "error option"

definition IDEMPOTENCY_TTL :: nat where
  "IDEMPOTENCY_TTL = 24 * 60 * 60"

definition RETRY_DELAYS :: "nat list" where
  "RETRY_DELAYS = [1000, 2000, 4000]"

definition RETRY_MAX_ATTEMPTS :: nat where
  "RETRY_MAX_ATTEMPTS = 3"

definition idempotencyPayload :: "WalletEventPayload \<Rightarrow> string" where
  \<comment> \<open>\<open>`${event.walletId}-${event.eventType}-${event.timestamp}-${event.amount || ''}`\<close>\<close>
  "idempotencyPayload event =
     walletId_p event @ ''-'' @ eventType_p event @ ''-'' @ timestamp_p event @ ''-'' @
     (case amount_p event of None \<Rightarrow> [] | Some a \<Rightarrow> if a = 0 then [] else show_nat a)"

definition generateIdempotencyKey :: "(string \<Rightarrow> string) \<Rightarrow> WalletEventPayload \<Rightarrow> string" where
  "generateIdempotencyKey H event = H (idempotencyPayload event)"

definition spec_idempotencyPayload :: "WalletEventPayload \<Rightarrow> string" where
  \<comment> \<open>the string the specification hashes: \<open>walletId|eventType|timestamp|amount?\<close>\<close>
  "spec_idempotencyPayload event =
     walletId_p event @ ''|'' @ eventType_p event @ ''|'' @ timestamp_p event @
     (case amount_p event of None \<Rightarrow> [] | Some a \<Rightarrow> ''|'' @ show_nat a)"

definition acquireLock :: "string \<Rightarrow> consumer \<Rightarrow> bool \<times> consumer" where
  \<comment> \<open>\<open>SET key 'true' EX ttl NX\<close>: sets the key only if it is absent\<close>
  "acquireLock eventId c =
     (let key = ''processed_event:'' @ eventId
      in case kv c key of
           Some v \<Rightarrow> (False, c)
         | None \<Rightarrow> (True, c\<lparr>kv := (kv c)(key \<mapsto> (''true'', IDEMPOTENCY_TTL))\<rparr>))"

definition saveFraudAlert :: "string \<Rightarrow> string \<Rightarrow> json_object \<Rightarrow> consumer \<Rightarrow> consumer" where
  "saveFraudAlert walletId ty det c =
     c\<lparr>alerts := alerts c @ [\<lparr>walletId_fa = walletId, alertType = ty, details = det\<rparr>]\<rparr>"

definition detectRapidWithdrawals ::
  "(string \<Rightarrow> int) \<Rightarrow> fraud_config \<Rightarrow> WalletEventPayload \<Rightarrow> consumer \<Rightarrow> consumer" where
  "detectRapidWithdrawals T cfg event c =
     (let walletId = walletId_p event;
          now = T (timestamp_p event);
          key = ''withdrawals:'' @ walletId;
          timeWindowMinutes = fraudDetectionTimeWindowMinutes cfg;
          windowMs = int (timeWindowMinutes * 60 * 1000);
          added = List.insert now (case zsets c key of None \<Rightarrow> [] | Some xs \<Rightarrow> xs);
          cutoff = now - windowMs;
          kept = filter (\<lambda>score. \<not> score \<le> cutoff) added;
          c1 = c\<lparr>zsets := (zsets c)(key \<mapsto> kept),
                 expiry := (expiry c)(key \<mapsto> timeWindowMinutes * 60)\<rparr>;
          count = length kept
      in if count > fraudDetectionMaxWithdrawals cfg
         then saveFraudAlert walletId ''rapid_withdrawals''
                [(''withdrawalCount'', JNumber (of_nat count)),
                 (''timeWindow'', JString (show_nat timeWindowMinutes @ '' minutes''))] c1
         else c1)"

definition detectHighValueTransaction ::
  "fraud_config \<Rightarrow> WalletEventPayload \<Rightarrow> consumer \<Rightarrow> consumer" where
  "detectHighValueTransaction cfg event c =
     (let threshold = fraudDetectionThreshold cfg
      in case amount_p event of
           None \<Rightarrow> c
         | Some a \<Rightarrow>
             if a \<noteq> 0 \<and> a > threshold
             then saveFraudAlert (walletId_p event) ''high_value_transaction''
                    [(''amount'', JNumber (of_nat a)), (''threshold'', JNumber (of_nat threshold))] c
             else c)"

definition processFraudChecks ::
  "(string \<Rightarrow> int) \<Rightarrow> fraud_config \<Rightarrow> WalletEventPayload \<Rightarrow> consumer \<Rightarrow> consumer" where
  "processFraudChecks T cfg event c =
     (if eventType_p event = ''FUNDS_WITHDRAWN''
      then detectHighValueTransaction cfg event (detectRapidWithdrawals T cfg event c)
      else c)"

definition handleProcessingError :: "fraud_config \<Rightarrow> AmqpMessage \<Rightarrow> consumer \<Rightarrow> consumer" where
  "handleProcessingError cfg msg c =
     (let retryCount = (case retry_count msg of None \<Rightarrow> 0 | Some n \<Rightarrow> n)
      in if retryCount < RETRY_MAX_ATTEMPTS
         then (let delay = (if retryCount < length RETRY_DELAYS \<and> RETRY_DELAYS ! retryCount \<noteq> 0
                            then RETRY_DELAYS ! retryCount else last RETRY_DELAYS);
                   waitQueue = fraudDetectionQueue cfg @ ''.wait.'' @ show_nat delay
               in c\<lparr>channel := channel c @ [SendToQueue waitQueue (retryCount + 1), Ack]\<rparr>)
         else c\<lparr>channel := channel c @ [Nack False False]\<rparr>)"

definition handleMessage ::
  "(string \<Rightarrow> string) \<Rightarrow> (string \<Rightarrow> int) \<Rightarrow> fraud_config \<Rightarrow> AmqpMessage \<Rightarrow> consumer \<Rightarrow> consumer" where
  "handleMessage H T cfg msg c =
     (case content msg of
        None \<Rightarrow> c\<lparr>channel := channel c @ [Nack False False]\<rparr>
      | Some event \<Rightarrow>
         (case redis_fault c of
            Some e \<Rightarrow> handleProcessingError cfg msg c
          | None \<Rightarrow>
             (let eventId = generateIdempotencyKey H event;
                  (isNew, c1) = acquireLock eventId c
              in if \<not> isNew then c1\<lparr>channel := channel c1 @ [Ack]\<rparr>
                 else (let c2 = processFraudChecks T cfg event c1
                       in c2\<lparr>channel := channel c2 @ [Ack]\<rparr>))))"

section \<open>States of the end-to-end scenarios\<close>

definition empty_database :: database where
  "empty_database =
     \<lparr>wallets = Map.empty, wallet_events = [], transfer_sagas = Map.empty, saga_seq = 0,
      idempotency_keys = Map.empty, outbox_events = [], committed = []\<rparr>"

definition alice_world :: "rat \<Rightarrow> WalletStatus \<Rightarrow> world" where
  \<comment> \<open>one wallet, alice, with the given balance and status; the default configuration\<close>
  "alice_world b st =
     \<lparr>db = empty_database\<lparr>wallets :=
             [''alice'' \<mapsto> (new_Wallet ''alice'' ''USD'')\<lparr>balance := b, status := st\<rparr>]\<rparr>,
      redis = Map.empty, broker = [], connected = True, faults = [], random = [],
      sleeps = [], clock = 1700000000000, maxRetries = 10, initialBackoffMs = 50\<rparr>"

definition debited_world :: "rat \<Rightarrow> WalletStatus \<Rightarrow> world" where
  \<comment> \<open>saga-0 has debited 50 from alice for a transfer to bob, whose wallet is closed,
      so that the credit leg fails; alice is left with the given balance and has since
      got the given status\<close>
  "debited_world b st =
     (alice_world b st)\<lparr>db := (db (alice_world b st))\<lparr>
        wallets := (wallets (db (alice_world b st)))
                     (''bob'' \<mapsto> (new_Wallet ''bob'' ''USD'')\<lparr>status := CLOSED\<rparr>),
        transfer_sagas :=
          [''saga-0'' \<mapsto> (new_TransferSaga ''alice'' ''bob'' 50 ''USD'')
                            \<lparr>id_saga := ''saga-0'', state := DEBITED\<rparr>],
        saga_seq := 1\<rparr>\<rparr>"

definition initiated_world :: world where
  \<comment> \<open>\<open>executeTransfer\<close> of 50 from alice (balance 100) to bob under request id req-1, at
      the entry of its \<open>try\<close> block: bob's wallet is created, saga-0 is saved PENDING,
      TRANSFER_INITIATED is published; the publisher has lost its channel since\<close>
  "initiated_world =
     (let w1 = snd (getOrCreate ''bob'' ''USD'' (alice_world 100 ACTIVE));
          (saga, t) = insert_saga (new_TransferSaga ''alice'' ''bob'' 50 ''USD'')
                        (begin_tx (db w1));
          w2 = snd (publish
                 \<lparr>eventType_msg = TRANSFER_INITIATED, walletId_msg = ''alice'',
                  amount_msg = Some 50,
                  metadata_msg = Some [(''sagaId'', JString (id_saga saga)),
                                       (''toWalletId'', JString ''bob''),
                                       (''requestId'', JString ''req-1'')],
                  timestamp_msg = clock w1\<rparr>
                 (w1\<lparr>db := commit t\<rparr>))
      in w2\<lparr>connected := False\<rparr>)"

definition saga_0 :: TransferSaga where
  \<comment> \<open>the saga object \<open>executeTransfer\<close> holds at that point\<close>
  "saga_0 = (new_TransferSaga ''alice'' ''bob'' 50 ''USD'')\<lparr>id_saga := ''saga-0''\<rparr>"

definition withdrawal_20000 :: WalletEventPayload where
  \<comment> \<open>the withdrawal of scenario 6\<close>
  "withdrawal_20000 =
     \<lparr>walletId_p = ''alice'', eventType_p = ''FUNDS_WITHDRAWN'', amount_p = Some 20000,
      timestamp_p = ''2024-01-01T00:00:00.000Z''\<rparr>"

definition default_fraud_config :: fraud_config where
  "default_fraud_config =
     \<lparr>fraudDetectionQueue = ''fraud_detection'', fraudDetectionThreshold = 10000,
      fraudDetectionMaxWithdrawals = 3, fraudDetectionTimeWindowMinutes = 5\<rparr>"

definition idle_consumer :: consumer where
  "idle_consumer =
     \<lparr>kv = Map.empty, zsets = Map.empty, expiry = Map.empty, alerts = [], channel = [],
      redis_fault = None\<rparr>"

section \<open>Rounding to a double\<close>

lemma bits_nonneg: "0 \<le> bits n"
  by (induction n rule: bits.induct) (subst bits.simps, simp)

lemma bits_le: "n < 2 ^ k \<Longrightarrow> bits n \<le> int k"
proof (induction k arbitrary: n)
  case 0
  then show ?case by (subst bits.simps) simp
next
  case (Suc k)
  show ?case
  proof (cases "n \<le> 0")
    case True
    then show ?thesis by (subst bits.simps) simp
  next
    case False
    from Suc.prems have "n div 2 < 2 ^ k" by auto
    from Suc.IH [OF this] False show ?thesis by (subst bits.simps) simp
  qed
qed

lemma bits_pos: "0 < n \<Longrightarrow> 0 < bits n"
  using bits_nonneg [of "n div 2"] by (subst bits.simps) simp

lemma round_half_even_of_int: "round_half_even (of_int z) = z"
  by (simp add: round_half_even_def)

text \<open>Every integer below \<open>2 ^ 53\<close> is a double.\<close>

lemma double_of_nat:
  assumes "k < 2 ^ 53"
  shows "double (of_nat k) = of_nat k"
proof (cases "k = 0")
  case True
  then show ?thesis by (simp add: double_def)
next
  case False
  have k1: "(1::rat) \<le> of_nat k" using False by simp
  have "int k < 2 ^ 53" using assms by (simp flip: of_nat_less_iff)
  then have b: "bits (int k) \<le> 53" using bits_le [of "int k" 53] by simp
  have bpos: "0 < bits (int k)" using False by (simp add: bits_pos)
  define j where "j = nat (53 - bits (int k))"
  have e: "exponent (of_nat k) = 52 - int j"
    using k1 b bpos by (simp add: exponent_def j_def)
  have p1: "pow2 (52 - exponent (of_nat k)) = 2 ^ j" by (simp add: e pow2_def)
  have p2: "pow2 (exponent (of_nat k) - 52) = 1 / 2 ^ j"
    by (cases "j = 0") (simp_all add: e pow2_def)
  have "(of_nat k :: rat) * 2 ^ j = of_int (int k * 2 ^ j)" by simp
  then have r: "round_half_even (of_nat k * 2 ^ j) = int k * 2 ^ j"
    by (simp only: round_half_even_of_int)
  have nz: "(of_nat k :: rat) \<noteq> 0" using False by simp
  show ?thesis
    using nz by (simp add: double_def Let_def p1 p2 r)
qed

lemma double_numeral:
  "(numeral k :: nat) < 2 ^ 53 \<Longrightarrow> double (numeral k) = numeral k"
  using double_of_nat [of "numeral k"] by simp

lemma double_0: "double 0 = 0"
  by (simp add: double_def)

lemma double_1: "double 1 = 1"
  using double_of_nat [of 1] by simp

lemmas double_simps = double_numeral double_0 double_1

text \<open>
  The doubles of 0.1, 0.2 and 0.3, the double sum 0.1 + 0.2 = 0.30000000000000004, and
  ties above \<open>2 ^ 53\<close>, where the doubles are the even integers.
\<close>

lemma double_values:
  "double (1 / 10) = 3602879701896397 / 36028797018963968"
  "double (1 / 5) = 3602879701896397 / 18014398509481984"
  "double (3 / 10) = 5404319552844595 / 18014398509481984"
  "double (double (1 / 10) + double (1 / 5)) = 1351079888211149 / 4503599627370496"
  "double (- (1 / 10)) = - (3602879701896397 / 36028797018963968)"
  "double 9007199254740993 = 9007199254740992"
  "double 9007199254740995 = 9007199254740996"
  by code_simp+

section \<open>Evaluation of the model on concrete states\<close>

lemma retry_from_numeral:
  "retry_from (numeral k) attempt initialBackoff operation w =
     (case operation w of
        (Inr r, w1) \<Rightarrow> (Inr r, w1)
      | (Inl e, w1) \<Rightarrow>
          if isRetryableError e
          then retry_from (pred_numeral k) (Suc attempt) initialBackoff operation
                 (performExponentialBackoff attempt initialBackoff w1)
          else (Inl e, w1))"
  by (simp add: numeral_eq_Suc)

lemmas entity_defs = deposit_def withdraw_def credit_def validatePositiveAmount_def
  ensureWalletActive_def resetDailyLimitIfNewDay_def getTodayDate_def utcDay_def
  validateDailyLimit_def trackWithdrawal_def new_Wallet_def new_TransferSaga_def
  markAsDebited_def markAsCompleted_def markAsCompensated_def markAsFailed_def spread_def
  double_simps

lemmas store_defs = new_WalletEvent_def new_OutboxEvent_def begin_tx_def commit_def
  save_wallet_def save_event_def find_saga_def save_saga_def insert_saga_def
  save_idempotency_def saveAll_def publishEvent_def autocommit_def truthy_def
  publish_def publishEventsAsync_def transaction_def startTransaction_def execute_def
  digit_def

lemmas service_defs = saveWithEvent_def getOrCreate_tx_def getOrCreate_def
  json_of_requestId_def getBalanceCacheKey_def setBalanceCache_def
  invalidateBalanceCache_def idempotentBlock_def executeIdempotentTransaction_def
  WalletService_deposit_def WalletService_withdraw_def

lemmas saga_defs = isRetryableError_def Math_random_def sleep_def
  performExponentialBackoff_def executeWithRetry_def stepBlock_def
  executeTransactionalStep_def debitFromSender_def creditToReceiver_def compensate_def
  transferTry_def transferCatch_def executeTransfer_def retry_from_numeral

lemmas world_defs = empty_database_def alice_world_def debited_world_def
  initiated_world_def saga_0_def

lemmas model_defs = entity_defs store_defs service_defs saga_defs world_defs Let_def

section \<open>Properties of the saga entity\<close>

lemma declared_edge_simps:
  "declared_edge a b \<longleftrightarrow>
     (a = PENDING \<and> (b = DEBITED \<or> b = FAILED)) \<or>
     (a = DEBITED \<and> (b = COMPLETED \<or> b = COMPENSATED)) \<or>
     (a = COMPENSATED \<and> b = FAILED)"
  by (auto simp: declared_edge_def)

text \<open>
  C2, as the claim states it, fails: \<open>markAsFailed\<close> has no guard.  On a saga in state
  DEBITED it does not throw and moves the saga to FAILED, and DEBITED \<rightarrow> FAILED is not
  a declared edge.
\<close>

theorem C2_markAsFailed_counterexample:
  "fst (markAsFailed (JString ''Network error'')
          ((new_TransferSaga ''sender-123'' ''receiver-456'' 100 ''USD'')\<lparr>state := DEBITED\<rparr>)) = None
   \<and> state (snd (markAsFailed (JString ''Network error'')
          ((new_TransferSaga ''sender-123'' ''receiver-456'' 100 ''USD'')\<lparr>state := DEBITED\<rparr>))) = FAILED
   \<and> \<not> declared_edge DEBITED FAILED"
  by (simp add: markAsFailed_def new_TransferSaga_def declared_edge_simps)

text \<open>
  C2, amended: \<open>markAsDebited\<close>, \<open>markAsCompleted\<close> and \<open>markAsCompensated\<close> change the
  state only along the declared edges PENDING \<rightarrow> DEBITED, DEBITED \<rightarrow> COMPLETED and
  DEBITED \<rightarrow> COMPENSATED; from any other state they throw and leave the saga as it was.
  \<open>markAsFailed\<close> never throws and moves the saga to FAILED from every state.
\<close>

theorem C2_saga_transitions:
  "(case apply_saga_op opn s of
      (Some e, s') \<Rightarrow>
         s' = s \<and> (\<forall>r. opn \<noteq> MarkAsFailed r) \<and> \<not> declared_edge (state s) (target_state opn)
    | (None, s') \<Rightarrow>
         state s' = target_state opn \<and>
         (declared_edge (state s) (state s') \<or> (\<exists>r. opn = MarkAsFailed r)))"
  by (cases opn; cases "state s")
     (simp_all add: markAsDebited_def markAsCompleted_def markAsCompensated_def
        markAsFailed_def declared_edge_simps)

theorem C2_saga_transitions_witness:
  "(case apply_saga_op MarkAsCompleted (new_TransferSaga ''a'' ''b'' 5 ''USD'') of
      (Some e, s') \<Rightarrow>
         s' = new_TransferSaga ''a'' ''b'' 5 ''USD'' \<and> \<not> declared_edge PENDING COMPLETED
    | (None, s') \<Rightarrow> False)
   \<and> (case apply_saga_op MarkAsDebited (new_TransferSaga ''a'' ''b'' 5 ''USD'') of
      (Some e, s') \<Rightarrow> False
    | (None, s') \<Rightarrow> state s' = DEBITED \<and> declared_edge PENDING DEBITED)"
  using C2_saga_transitions [of MarkAsCompleted "new_TransferSaga ''a'' ''b'' 5 ''USD''"]
        C2_saga_transitions [of MarkAsDebited "new_TransferSaga ''a'' ''b'' 5 ''USD''"]
  by (simp add: markAsDebited_def markAsCompleted_def new_TransferSaga_def declared_edge_simps)

section \<open>Properties of the wallet entity\<close>






section \<open>Properties of the transaction coordinator\<close>

lemma startTransaction_None:
  "no_store_fault w \<Longrightarrow> startTransaction w = (None, w)"
  by (simp add: startTransaction_def no_store_fault_def split: list.splits option.splits)

lemma startTransaction_Some:
  "faults w = Some e # rest \<Longrightarrow> is_ConnectionError e \<Longrightarrow>
   startTransaction w = (Some e, w\<lparr>faults := rest\<rparr>)"
  by (simp add: startTransaction_def)

lemma startTransaction_other:
  "faults w = Some e # rest \<Longrightarrow> \<not> is_ConnectionError e \<Longrightarrow> startTransaction w = (None, w)"
  by (simp add: startTransaction_def)

lemma startTransaction_redis:
  "startTransaction (w\<lparr>redis := r\<rparr>) =
     (fst (startTransaction w), (snd (startTransaction w))\<lparr>redis := r\<rparr>)"
  by (simp add: startTransaction_def split: list.splits option.splits)

lemma transaction_fault:
  "faults w = Some e # rest \<Longrightarrow> transaction operation w = (Inl e, w\<lparr>faults := rest\<rparr>)"
  by (simp add: transaction_def)

lemma transaction_Inl:
  "no_store_fault w \<Longrightarrow> operation (begin_tx (db w)) = Inl e \<Longrightarrow>
   transaction operation w = (Inl e, w\<lparr>faults := tl (faults w)\<rparr>)"
  by (simp add: transaction_def no_store_fault_def split: list.splits option.splits)

lemma saveAll_Nil: "saveAll now [] t = t"
  by (simp add: saveAll_def)

lemma transaction_Inr:
  "no_store_fault w \<Longrightarrow> operation (begin_tx (db w)) = Inr (res, t) \<Longrightarrow>
   transaction operation w =
     (Inr res, publishEventsAsync (eventsToPublish t)
                 (w\<lparr>faults := tl (faults w),
                    db := commit (saveAll (clock w) (eventsToPublish t) t)\<rparr>))"
  by (cases "eventsToPublish t = []")
     (simp_all add: transaction_def no_store_fault_def saveAll_Nil Let_def
        split: list.splits option.splits)

lemma publish_keeps: "db (snd (publish m w)) = db w" "redis (snd (publish m w)) = redis w"
  "connected (snd (publish m w)) = connected w" "faults (snd (publish m w)) = faults w"
  by (simp_all add: publish_def)

lemma publishEventsAsync_keeps:
  "db (publishEventsAsync evs w) = db w \<and> redis (publishEventsAsync evs w) = redis w
   \<and> connected (publishEventsAsync evs w) = connected w
   \<and> faults (publishEventsAsync evs w) = faults w"
  unfolding publishEventsAsync_def
  by (induction evs arbitrary: w) (simp_all add: publish_keeps)

lemma publishEventsAsync_broker:
  "broker (publishEventsAsync evs w) =
     (if connected w then broker w @ map payload evs else broker w)"
  unfolding publishEventsAsync_def
  by (induction evs arbitrary: w) (simp_all add: publish_def)

lemma transaction_redis: "redis (snd (transaction operation w)) = redis w"
  by (cases "operation (begin_tx (db w))")
     (auto simp: transaction_def Let_def publishEventsAsync_keeps
        split: list.splits option.splits sum.splits prod.splits)

lemma execute_conflict:
  "truthy lockKey \<Longrightarrow> redis w (the lockKey) \<noteq> None \<Longrightarrow>
   execute operation lockKey lockTtl w =
     (Inl (ConflictException ''Concurrent request in progress''), w)"
  by (simp add: execute_def)

lemma execute_connection_fault:
  assumes "\<not> (truthy lockKey \<and> redis w (the lockKey) \<noteq> None)"
    and "faults w = Some e # rest" and "is_ConnectionError e"
  shows "execute operation lockKey lockTtl w =
     (Inl e, (if truthy lockKey
              then w\<lparr>redis := (redis w)(the lockKey \<mapsto> (RString ''PROCESSING'', lockTtl))\<rparr>
              else w)\<lparr>faults := rest\<rparr>)"
  using assms by (auto simp: execute_def startTransaction_def)

lemma execute_unlocked:
  "\<not> truthy lockKey \<Longrightarrow> fst (startTransaction w) = None \<Longrightarrow>
   execute operation lockKey lockTtl w = transaction operation w"
  by (auto simp: execute_def startTransaction_def split: prod.splits list.splits option.splits
        if_splits)

lemma execute_locked:
  assumes a: "truthy lockKey" "redis w (the lockKey) = None"
    and s: "fst (startTransaction w) = None"
  shows "execute operation lockKey lockTtl w =
     (case transaction operation
             (w\<lparr>redis := (redis w)(the lockKey \<mapsto> (RString ''PROCESSING'', lockTtl))\<rparr>) of
        (r, w2) \<Rightarrow> (r, w2\<lparr>redis := redis w\<rparr>))"
proof -
  let ?w1 = "w\<lparr>redis := (redis w)(the lockKey \<mapsto> (RString ''PROCESSING'', lockTtl))\<rparr>"
  have st: "startTransaction ?w1 = (None, ?w1)"
    using s by (auto simp: startTransaction_def split: list.splits option.splits if_splits)
  obtain r w2 where t: "transaction operation ?w1 = (r, w2)" by (cases "transaction operation ?w1")
  have "redis w2 = redis ?w1" using transaction_redis [of operation ?w1] t by simp
  then have "(redis w2)(the lockKey := None) = redis w" using a(2) by (auto simp: fun_eq_iff)
  then show ?thesis using a t st by (simp add: execute_def)
qed

text \<open>
  What the coordinator guarantees.  When the lock cannot be acquired the call fails
  with ConflictException and the block is not run.  When the connection cannot be
  opened the error reaches the caller and the store is as it was, but the lock that was
  just taken stays set.  Otherwise the lock is released, and the block either commits
  everything it wrote together with one outbox row for every event it collected through
  \<open>publishEvent\<close>, as one transaction, or, when the block or the store under it throws,
  leaves the store as it was and hands that error to the caller.
\<close>

lemma execute_all_or_nothing:
  assumes run: "execute operation lockKey lockTtl w = (r, w')"
    and outcome: "outcome = (case faults w of Some e # rest \<Rightarrow> Inl e
                             | _ \<Rightarrow> operation (begin_tx (db w)))"
  shows "if truthy lockKey \<and> redis w (the lockKey) \<noteq> None
         then r = Inl (ConflictException ''Concurrent request in progress'') \<and> w' = w
         else case fst (startTransaction w) of
           Some e \<Rightarrow>
             r = Inl e \<and> db w' = db w \<and>
             (truthy lockKey \<longrightarrow>
                redis w' (the lockKey) = Some (RString ''PROCESSING'', lockTtl))
         | None \<Rightarrow>
           (truthy lockKey \<longrightarrow> redis w' (the lockKey) = None) \<and>
           (case outcome of
              Inl e \<Rightarrow> r = Inl e \<and> db w' = db w
            | Inr (res, t) \<Rightarrow>
                r = Inr res \<and>
                wallets (db w') = wallets (view t) \<and>
                wallet_events (db w') = wallet_events (view t) \<and>
                transfer_sagas (db w') = transfer_sagas (view t) \<and>
                idempotency_keys (db w') = idempotency_keys (view t) \<and>
                outbox_events (db w') =
                  outbox_events (view t) @
                  map (\<lambda>e. e\<lparr>createdAt_ob := clock w\<rparr>) (eventsToPublish t) \<and>
                committed (db w') =
                  committed (view t) @
                  [writes t @
                   map (\<lambda>e. OutboxInsert (aggregateId e) (eventType_ob e)) (eventsToPublish t)])"
proof (cases "truthy lockKey \<and> redis w (the lockKey) \<noteq> None")
  case True
  then show ?thesis using run by (simp add: execute_conflict)
next
  case free: False
  show ?thesis
  proof (cases "fst (startTransaction w)")
    case (Some e)
    then obtain rest where f: "faults w = Some e # rest" and c: "is_ConnectionError e"
      by (auto simp: startTransaction_def split: list.splits option.splits if_splits)
    from execute_connection_fault [OF free f c, of operation lockTtl] run
    have "r = Inl e \<and> db w' = db w \<and>
          (truthy lockKey \<longrightarrow> redis w' (the lockKey) = Some (RString ''PROCESSING'', lockTtl))"
      by auto
    then show ?thesis unfolding if_not_P [OF free] Some by simp
  next
    case None
  define w1 where "w1 = (if truthy lockKey
      then w\<lparr>redis := (redis w)(the lockKey \<mapsto> (RString ''PROCESSING'', lockTtl))\<rparr> else w)"
  have same: "faults w1 = faults w" "db w1 = db w" "clock w1 = clock w"
    by (simp_all add: w1_def)
  obtain r2 w2 where t: "transaction operation w1 = (r2, w2)"
    by (cases "transaction operation w1")
  have ex: "r = r2 \<and> db w' = db w2 \<and> (truthy lockKey \<longrightarrow> redis w' (the lockKey) = None)"
  proof (cases "truthy lockKey")
    case True
    with free have "redis w (the lockKey) = None" by (cases "redis w (the lockKey)") auto
    with True run t None show ?thesis by (auto simp: execute_locked w1_def)
  next
    case False
    with run t None show ?thesis by (simp add: execute_unlocked w1_def)
  qed
  have body: "case outcome of
      Inl e \<Rightarrow> r2 = Inl e \<and> db w2 = db w
    | Inr (res, t) \<Rightarrow>
        r2 = Inr res \<and> db w2 = commit (saveAll (clock w) (eventsToPublish t) t)"
  proof (cases "no_store_fault w")
    case False
    then obtain e rest where f: "faults w = Some e # rest"
      by (auto simp: no_store_fault_def split: list.splits option.splits)
    then show ?thesis using t same outcome transaction_fault [of w1 e rest operation] by auto
  next
    case True
    then have nf: "no_store_fault w1" by (simp add: no_store_fault_def same)
    from True have o: "outcome = operation (begin_tx (db w))"
      using outcome by (auto simp: no_store_fault_def split: list.splits option.splits)
    show ?thesis
    proof (cases "operation (begin_tx (db w))")
      case (Inl e)
      then show ?thesis using t o same transaction_Inl [OF nf, of operation e] by auto
    next
      case (Inr p)
      obtain res tt where p: "p = (res, tt)" by (cases p)
      with Inr have opr: "operation (begin_tx (db w1)) = Inr (res, tt)" by (simp add: same)
      from transaction_Inr [of w1 operation res tt, OF nf opr] show ?thesis
        using t o Inr p same by (auto simp: publishEventsAsync_keeps)
    qed
  qed
  have main: "(truthy lockKey \<longrightarrow> redis w' (the lockKey) = None) \<and>
           (case outcome of
              Inl e \<Rightarrow> r = Inl e \<and> db w' = db w
            | Inr (res, t) \<Rightarrow>
                r = Inr res \<and>
                wallets (db w') = wallets (view t) \<and>
                wallet_events (db w') = wallet_events (view t) \<and>
                transfer_sagas (db w') = transfer_sagas (view t) \<and>
                idempotency_keys (db w') = idempotency_keys (view t) \<and>
                outbox_events (db w') =
                  outbox_events (view t) @
                  map (\<lambda>e. e\<lparr>createdAt_ob := clock w\<rparr>) (eventsToPublish t) \<and>
                committed (db w') =
                  committed (view t) @
                  [writes t @
                   map (\<lambda>e. OutboxInsert (aggregateId e) (eventType_ob e)) (eventsToPublish t)])"
  proof (cases outcome)
    case (Inl e)
    then show ?thesis using ex body by simp
  next
    case (Inr p)
    obtain res tt where p: "p = (res, tt)" by (cases p)
    then show ?thesis using ex body Inr
      by (simp add: commit_def saveAll_def)
  qed
  show ?thesis unfolding if_not_P [OF free] None by (simp add: main)
  qed
qed

lemma publishEventsAsync_eq:
  "publishEventsAsync evs w =
     (if connected w then w\<lparr>broker := broker w @ map payload evs\<rparr> else w)"
  unfolding publishEventsAsync_def
  by (induction evs arbitrary: w) (simp_all add: publish_def)

lemma publishEventsAsync_redis_update:
  "(publishEventsAsync evs w)\<lparr>redis := r\<rparr> = publishEventsAsync evs (w\<lparr>redis := r\<rparr>)"
  by (simp add: publishEventsAsync_eq)

lemma execute_Inl:
  assumes "no_store_fault w" and "operation (begin_tx (db w)) = Inl e"
    and "\<not> (truthy lockKey \<and> redis w (the lockKey) \<noteq> None)"
  shows "execute operation lockKey lockTtl w = (Inl e, w\<lparr>faults := tl (faults w)\<rparr>)"
proof (cases "truthy lockKey")
  case False
  then show ?thesis using assms by (simp add: execute_unlocked transaction_Inl startTransaction_None)
next
  case True
  with assms(3) have free: "redis w (the lockKey) = None"
    by (cases "redis w (the lockKey)") auto
  let ?w1 = "w\<lparr>redis := (redis w)(the lockKey \<mapsto> (RString ''PROCESSING'', lockTtl))\<rparr>"
  have 1: "no_store_fault ?w1" and 2: "operation (begin_tx (db ?w1)) = Inl e"
    using assms by (simp_all add: no_store_fault_def)
  from transaction_Inl [of ?w1 operation e, OF 1 2] show ?thesis
    using True free assms(1) by (simp add: execute_locked startTransaction_None)
qed

lemma execute_Inr:
  assumes "no_store_fault w" and "operation (begin_tx (db w)) = Inr (res, t)"
    and "\<not> (truthy lockKey \<and> redis w (the lockKey) \<noteq> None)"
  shows "execute operation lockKey lockTtl w =
     (Inr res, publishEventsAsync (eventsToPublish t)
                 (w\<lparr>faults := tl (faults w),
                    db := commit (saveAll (clock w) (eventsToPublish t) t)\<rparr>))"
proof (cases "truthy lockKey")
  case False
  then show ?thesis using assms by (simp add: execute_unlocked transaction_Inr startTransaction_None)
next
  case True
  with assms(3) have free: "redis w (the lockKey) = None"
    by (cases "redis w (the lockKey)") auto
  let ?w1 = "w\<lparr>redis := (redis w)(the lockKey \<mapsto> (RString ''PROCESSING'', lockTtl))\<rparr>"
  have 1: "no_store_fault ?w1" and 2: "operation (begin_tx (db ?w1)) = Inr (res, t)"
    using assms by (simp_all add: no_store_fault_def)
  from transaction_Inr [of ?w1 operation res t, OF 1 2] show ?thesis
    using True free assms(1)
    by (simp add: execute_locked publishEventsAsync_redis_update startTransaction_None)
qed

text \<open>
  C6: the lock is not released on every thrown error.  A deposit of 50 to alice under
  request id req-1 takes the lock \<open>lock:req:req-1\<close>; the store then refuses the
  connection.  The error reaches the caller and the store is as it was, but the lock is
  still set, with its expiry of 60 seconds: the coordinator opens the connection after
  taking the lock and before entering the \<open>try\<close> whose \<open>finally\<close> releases it.  The
  client's retry of req-1 is therefore refused with ConflictException although no
  request is in progress, and the deposit is not made.  When the error is thrown inside
  the transaction, by the store or by the block, the lock is released and a retry goes
  through.
\<close>

theorem C6_lock_kept_when_transaction_cannot_start:
  "fst (WalletService_deposit ''alice'' 50 (Some ''req-1'')
          ((alice_world 100 ACTIVE)\<lparr>faults := [Some (ConnectionError ''ECONNREFUSED'')]\<rparr>))
     = Inl (ConnectionError ''ECONNREFUSED'')
   \<and> redis (snd (WalletService_deposit ''alice'' 50 (Some ''req-1'')
                   ((alice_world 100 ACTIVE)
                      \<lparr>faults := [Some (ConnectionError ''ECONNREFUSED'')]\<rparr>)))
       ''lock:req:req-1''
     = Some (RString ''PROCESSING'', 60)
   \<and> db (snd (WalletService_deposit ''alice'' 50 (Some ''req-1'')
                ((alice_world 100 ACTIVE)
                   \<lparr>faults := [Some (ConnectionError ''ECONNREFUSED'')]\<rparr>)))
     = db (alice_world 100 ACTIVE)
   \<and> faults (snd (WalletService_deposit ''alice'' 50 (Some ''req-1'')
                    ((alice_world 100 ACTIVE)
                       \<lparr>faults := [Some (ConnectionError ''ECONNREFUSED'')]\<rparr>)))
     = []
   \<and> fst (WalletService_deposit ''alice'' 50 (Some ''req-1'')
            (snd (WalletService_deposit ''alice'' 50 (Some ''req-1'')
                    ((alice_world 100 ACTIVE)
                       \<lparr>faults := [Some (ConnectionError ''ECONNREFUSED'')]\<rparr>))))
     = Inl (ConflictException ''Concurrent request in progress'')
   \<and> map_option balance
         (wallets (db (snd (WalletService_deposit ''alice'' 50 (Some ''req-1'')
            (snd (WalletService_deposit ''alice'' 50 (Some ''req-1'')
                    ((alice_world 100 ACTIVE)
                       \<lparr>faults := [Some (ConnectionError ''ECONNREFUSED'')]\<rparr>)))))) ''alice'')
     = Some 100
   \<and> fst (WalletService_deposit ''alice'' 50 (Some ''req-1'')
            ((alice_world 100 ACTIVE)\<lparr>faults := [Some (QueryFailedError ''57P01'')]\<rparr>))
     = Inl (QueryFailedError ''57P01'')
   \<and> redis (snd (WalletService_deposit ''alice'' 50 (Some ''req-1'')
                   ((alice_world 100 ACTIVE)\<lparr>faults := [Some (QueryFailedError ''57P01'')]\<rparr>)))
       ''lock:req:req-1''
     = None
   \<and> fst (WalletService_deposit ''alice'' 50 (Some ''req-1'')
            (snd (WalletService_deposit ''alice'' 50 (Some ''req-1'')
                    ((alice_world 100 ACTIVE)
                       \<lparr>faults := [Some (QueryFailedError ''57P01'')]\<rparr>))))
     = Inr (BalanceResponse 150 ''alice'')
   \<and> fst (WalletService_withdraw ''alice'' 500 (Some ''req-2'') (alice_world 100 ACTIVE))
     = Inl (InsufficientFundsError 100 500)
   \<and> redis (snd (WalletService_withdraw ''alice'' 500 (Some ''req-2'') (alice_world 100 ACTIVE)))
       ''lock:req:req-2''
     = None"
  by (simp add: model_defs)

section \<open>Properties of the wallet service\<close>

lemma idempotentBlock_not_active:
  assumes "wallets d walletId = Some wallet" and "status wallet \<noteq> ACTIVE" and "0 < amount"
  shows "idempotentBlock now walletId amount eventType (deposit amount) requestId True (begin_tx d)
         = Inl (WalletNotActiveError (status wallet))"
  using assms
  by (simp add: idempotentBlock_def getOrCreate_tx_def begin_tx_def deposit_def
        validatePositiveAmount_def ensureWalletActive_def)

text \<open>
  C10: a deposit of a strictly positive amount into a wallet that is FROZEN or CLOSED
  fails with WalletNotActiveError and changes nothing in the store, so the balance stays
  as it was.  The request is one that is really executed: its request id, if it has
  one, has no idempotency record yet and is not locked by a request in flight, and the
  store raises no error of its own.
\<close>

theorem C10_deposit_requires_active:
  assumes "wallets (db w) walletId = Some wallet"
    and "status wallet = FROZEN \<or> status wallet = CLOSED"
    and "0 < amount"
    and "truthy requestId \<longrightarrow>
           idempotency_keys (db w) (the requestId) = None \<and>
           redis w (''lock:req:'' @ the requestId) = None"
    and "no_store_fault w"
  shows "deposit amount wallet = (Some (WalletNotActiveError (status wallet)), wallet)
       \<and> fst (WalletService_deposit walletId amount requestId w)
           = Inl (WalletNotActiveError (status wallet))
       \<and> db (snd (WalletService_deposit walletId amount requestId w)) = db w
       \<and> redis (snd (WalletService_deposit walletId amount requestId w)) = redis w"
proof -
  have na: "status wallet \<noteq> ACTIVE" using assms(2) by auto
  have ent: "deposit amount wallet = (Some (WalletNotActiveError (status wallet)), wallet)"
    using na assms(3)
    by (simp add: deposit_def validatePositiveAmount_def ensureWalletActive_def)
  let ?lk = "if truthy requestId then Some (''lock:req:'' @ the requestId) else None"
  let ?blk = "idempotentBlock (clock w) walletId amount FUNDS_DEPOSITED (deposit amount)
                requestId True"
  have blk: "?blk (begin_tx (db w)) = Inl (WalletNotActiveError (status wallet))"
    using idempotentBlock_not_active [OF assms(1) na assms(3)] by simp
  have free: "\<not> (truthy ?lk \<and> redis w (the ?lk) \<noteq> None)"
    using assms(4) by (auto simp: truthy_def)
  have ex: "execute ?blk ?lk 60 w
            = (Inl (WalletNotActiveError (status wallet)), w\<lparr>faults := tl (faults w)\<rparr>)"
    by (rule execute_Inl [of w ?blk _ ?lk, OF assms(5) blk free])
  have lookup: "(if truthy requestId then idempotency_keys (db w) (the requestId) else None) = None"
    using assms(4) by simp
  have "WalletService_deposit walletId amount requestId w
        = (Inl (WalletNotActiveError (status wallet)), w\<lparr>faults := tl (faults w)\<rparr>)"
    unfolding WalletService_deposit_def executeIdempotentTransaction_def lookup Let_def
    using ex by simp
  with ent show ?thesis by simp
qed

theorem C10_deposit_requires_active_witness:
  "fst (WalletService_deposit ''alice'' 100 (Some ''req-1'') (alice_world 50 FROZEN))
     = Inl (WalletNotActiveError FROZEN)
   \<and> db (snd (WalletService_deposit ''alice'' 100 (Some ''req-1'') (alice_world 50 FROZEN)))
     = db (alice_world 50 FROZEN)
   \<and> wallets (db (alice_world 50 FROZEN)) ''alice''
     = Some ((new_Wallet ''alice'' ''USD'')\<lparr>balance := 50, status := FROZEN\<rparr>)"
  using C10_deposit_requires_active [of "alice_world 50 FROZEN" "''alice''"
          "(new_Wallet ''alice'' ''USD'')\<lparr>balance := 50, status := FROZEN\<rparr>" 100 "Some ''req-1''"]
  by (simp add: world_defs truthy_def no_store_fault_def new_Wallet_def)

section \<open>Properties of the transfer saga service\<close>

lemma executeWithRetry_first:
  assumes "0 < maxRetries w" and "operation w = (r, w1)"
    and "case r of Inl e \<Rightarrow> \<not> isRetryableError e | Inr x \<Rightarrow> True"
  shows "executeWithRetry operation w = (r, w1)"
proof -
  obtain k where k: "maxRetries w = Suc k" using assms(1) by (cases "maxRetries w") auto
  show ?thesis using assms(2,3) by (cases r) (simp_all add: executeWithRetry_def k)
qed

lemma stepBlock_credit_not_active:
  assumes "wallets d walletId = Some wallet" and "status wallet \<noteq> ACTIVE" and "0 < amount"
  shows "stepBlock now sagaId walletId amount (credit amount) eventType md upd (begin_tx d)
         = Inl (WalletNotActiveError (status wallet))"
  using assms
  by (simp add: stepBlock_def begin_tx_def credit_def validatePositiveAmount_def
        ensureWalletActive_def)

text \<open>
  C1, as the claim states it, fails.  Compensation refunds through \<open>Wallet.credit\<close>, which
  requires an ACTIVE wallet.  With the source wallet FROZEN the compensation throws
  WalletNotActiveError and the balance stays at 50: no refund.  With the source wallet
  CLOSED it throws as well and the saga stays DEBITED: it does not end FAILED.
\<close>

theorem C1_compensate_counterexample:
  "fst (compensate ''saga-0'' ''alice'' 50 (JMessage (WalletNotActiveError CLOSED))
          (debited_world 50 FROZEN))
     = Some (WalletNotActiveError FROZEN)
   \<and> map_option balance
         (wallets (db (snd (compensate ''saga-0'' ''alice'' 50
                              (JMessage (WalletNotActiveError CLOSED))
                              (debited_world 50 FROZEN)))) ''alice'')
     = Some 50
   \<and> fst (compensate ''saga-0'' ''alice'' 50 (JMessage (WalletNotActiveError CLOSED))
            (debited_world 0 CLOSED))
     = Some (WalletNotActiveError CLOSED)
   \<and> map_option state
         (find_saga ''saga-0'' (db (snd (compensate ''saga-0'' ''alice'' 50
                                          (JMessage (WalletNotActiveError CLOSED))
                                          (debited_world 0 CLOSED)))))
     = Some DEBITED"
  by (simp add: model_defs)

text \<open>
  C1, amended: for a saga in state DEBITED, compensation refunds the amount to the source
  wallet when that wallet is ACTIVE: in one transaction the balance grows by the amount,
  the saga moves DEBITED \<rightarrow> COMPENSATED with the reason recorded, a TRANSFER_COMPENSATED
  event is journaled and its outbox row is written.  When the source wallet is FROZEN or
  CLOSED the compensation fails with WalletNotActiveError, nothing is written: no
  refund is made and the saga stays DEBITED.
\<close>

theorem C1_compensate:
  assumes wal: "wallets (db w) fromId = Some wallet" "id_wallet wallet = fromId"
    and sg: "find_saga sagaId (db w) = Some saga" "id_saga saga = sagaId" "state saga = DEBITED"
    and pos: "0 < amount" and nf: "no_store_fault w" and mr: "0 < maxRetries w"
    and res: "compensate sagaId fromId amount reason w = (r, w')"
  shows "if status wallet = ACTIVE
     then r = (if connected w then None
               else Some (GenericError ''EventPublisher not connected''))
        \<and> wallets (db w') = (wallets (db w))(fromId \<mapsto> wallet\<lparr>balance := balance wallet + amount\<rparr>)
        \<and> transfer_sagas (db w') =
            (transfer_sagas (db w))(sagaId \<mapsto>
               saga\<lparr>state := COMPENSATED,
                    metadata_saga := Some (assign ''compensationReason'' reason
                                            (spread (metadata_saga saga)))\<rparr>)
        \<and> wallet_events (db w') =
            wallet_events (db w) @
            [\<lparr>walletId_ev = fromId, eventType_ev = TRANSFER_COMPENSATED,
              currency_ev = currency wallet, amount_ev = Some amount,
              metadata_ev = Some [(''sagaId'', JString sagaId), (''reason'', reason)],
              createdAt_ev = clock w\<rparr>]
        \<and> map eventType_ob (outbox_events (db w')) =
            map eventType_ob (outbox_events (db w)) @ [TRANSFER_COMPENSATED]
        \<and> committed (db w') =
            committed (db w) @
            [[WalletWrite fromId, SagaWrite sagaId COMPENSATED,
              EventInsert fromId TRANSFER_COMPENSATED, OutboxInsert fromId TRANSFER_COMPENSATED]]
     else r = Some (WalletNotActiveError (status wallet)) \<and> db w' = db w"
proof (cases "status wallet = ACTIVE")
  case False
  let ?md = "[(''sagaId'', JString sagaId), (''reason'', reason)]"
  let ?op = "\<lambda>w'. execute (stepBlock (clock w') sagaId fromId amount (credit amount)
                 TRANSFER_COMPENSATED ?md (Some (markAsCompensated reason))) None 60 w'"
  have blk: "stepBlock (clock w) sagaId fromId amount (credit amount) TRANSFER_COMPENSATED ?md
               (Some (markAsCompensated reason)) (begin_tx (db w))
             = Inl (WalletNotActiveError (status wallet))"
    by (rule stepBlock_credit_not_active [OF wal(1) False pos])
  have "?op w = (Inl (WalletNotActiveError (status wallet)), w\<lparr>faults := tl (faults w)\<rparr>)"
    using execute_Inl [of w "stepBlock (clock w) sagaId fromId amount (credit amount)
                 TRANSFER_COMPENSATED ?md (Some (markAsCompensated reason))" _ None 60, OF nf blk]
    by (simp add: truthy_def)
  then have "executeWithRetry ?op w
             = (Inl (WalletNotActiveError (status wallet)), w\<lparr>faults := tl (faults w)\<rparr>)"
    by (rule executeWithRetry_first [OF mr]) (simp add: isRetryableError_def)
  then have "compensate sagaId fromId amount reason w
             = (Some (WalletNotActiveError (status wallet)), w\<lparr>faults := tl (faults w)\<rparr>)"
    by (simp add: compensate_def executeTransactionalStep_def)
  with res False show ?thesis by auto
next
  case True
  let ?md = "[(''sagaId'', JString sagaId), (''reason'', reason)]"
  let ?op = "\<lambda>w'. execute (stepBlock (clock w') sagaId fromId amount (credit amount)
                 TRANSFER_COMPENSATED ?md (Some (markAsCompensated reason))) None 60 w'"
  define wallet' where "wallet' = wallet\<lparr>balance := balance wallet + amount\<rparr>"
  define saga' where "saga' = saga\<lparr>state := COMPENSATED,
      metadata_saga := Some (assign ''compensationReason'' reason (spread (metadata_saga saga)))\<rparr>"
  define t where "t =
     publishEvent
       (new_OutboxEvent fromId TRANSFER_COMPENSATED
          \<lparr>eventType_msg = TRANSFER_COMPENSATED, walletId_msg = fromId,
           amount_msg = Some amount, metadata_msg = Some ?md, timestamp_msg = clock w\<rparr>)
       (save_event (clock w)
          (new_WalletEvent fromId TRANSFER_COMPENSATED (currency wallet') (Some amount) (Some ?md))
          (save_saga saga' (save_wallet wallet' (begin_tx (db w)))))"
  have blk: "stepBlock (clock w) sagaId fromId amount (credit amount) TRANSFER_COMPENSATED ?md
               (Some (markAsCompensated reason)) (begin_tx (db w)) = Inr ((), t)"
    using wal sg pos True
    by (simp add: stepBlock_def credit_def validatePositiveAmount_def ensureWalletActive_def
          markAsCompensated_def find_saga_def save_wallet_def begin_tx_def t_def wallet'_def
          saga'_def Let_def)
  have "?op w = (Inr (), publishEventsAsync (eventsToPublish t)
                 (w\<lparr>faults := tl (faults w),
                    db := commit (saveAll (clock w) (eventsToPublish t) t)\<rparr>))"
    using execute_Inr [of w "stepBlock (clock w) sagaId fromId amount (credit amount)
                 TRANSFER_COMPENSATED ?md (Some (markAsCompensated reason))" "()" t None 60,
                 OF nf blk]
    by (simp add: truthy_def)
  then have "executeWithRetry ?op w = (Inr (), publishEventsAsync (eventsToPublish t)
                 (w\<lparr>faults := tl (faults w),
                    db := commit (saveAll (clock w) (eventsToPublish t) t)\<rparr>))"
    by (rule executeWithRetry_first [OF mr]) simp
  then have "compensate sagaId fromId amount reason w =
      publish \<lparr>eventType_msg = TRANSFER_FAILED, walletId_msg = fromId,
               amount_msg = Some amount, metadata_msg = Some ?md,
               timestamp_msg = clock w\<rparr>
        (publishEventsAsync (eventsToPublish t)
           (w\<lparr>faults := tl (faults w),
              db := commit (saveAll (clock w) (eventsToPublish t) t)\<rparr>))"
    by (simp add: compensate_def executeTransactionalStep_def publishEventsAsync_eq)
  with res have r: "r = (if connected w then None
                         else Some (GenericError ''EventPublisher not connected''))"
    and d: "db w' = commit (saveAll (clock w) (eventsToPublish t) t)"
    by (auto simp: publish_def publishEventsAsync_eq split: if_splits)
  have "wallets (db w') = (wallets (db w))(fromId \<mapsto> wallet')"
    using wal(2) by (simp add: d t_def store_defs wallet'_def)
  moreover have "transfer_sagas (db w') = (transfer_sagas (db w))(sagaId \<mapsto> saga')"
    using sg(2) by (simp add: d t_def store_defs saga'_def)
  moreover have "wallet_events (db w') =
            wallet_events (db w) @
            [\<lparr>walletId_ev = fromId, eventType_ev = TRANSFER_COMPENSATED,
              currency_ev = currency wallet, amount_ev = Some amount,
              metadata_ev = Some ?md, createdAt_ev = clock w\<rparr>]"
    using pos by (simp add: d t_def store_defs wallet'_def)
  moreover have "map eventType_ob (outbox_events (db w')) =
            map eventType_ob (outbox_events (db w)) @ [TRANSFER_COMPENSATED]"
    by (simp add: d t_def store_defs)
  moreover have "committed (db w') =
            committed (db w) @
            [[WalletWrite fromId, SagaWrite sagaId COMPENSATED,
              EventInsert fromId TRANSFER_COMPENSATED, OutboxInsert fromId TRANSFER_COMPENSATED]]"
    using wal(2) sg(2) by (simp add: d t_def store_defs wallet'_def saga'_def)
  ultimately show ?thesis using True r by (simp add: wallet'_def saga'_def)
qed

theorem C1_compensate_witness:
  "fst (compensate ''saga-0'' ''alice'' 50 (JMessage (WalletNotActiveError CLOSED))
          (debited_world 50 ACTIVE)) = None
   \<and> map_option balance
         (wallets (db (snd (compensate ''saga-0'' ''alice'' 50
                              (JMessage (WalletNotActiveError CLOSED))
                              (debited_world 50 ACTIVE)))) ''alice'')
     = Some 100
   \<and> map_option state
         (find_saga ''saga-0'' (db (snd (compensate ''saga-0'' ''alice'' 50
                                          (JMessage (WalletNotActiveError CLOSED))
                                          (debited_world 50 ACTIVE)))))
     = Some COMPENSATED"
  using C1_compensate
     [where w = "debited_world 50 ACTIVE" and fromId = "''alice''"
        and wallet = "(new_Wallet ''alice'' ''USD'')\<lparr>balance := 50, status := ACTIVE\<rparr>"
        and sagaId = "''saga-0''"
        and saga = "(new_TransferSaga ''alice'' ''bob'' 50 ''USD'')
                      \<lparr>id_saga := ''saga-0'', state := DEBITED\<rparr>"
        and amount = 50 and reason = "JMessage (WalletNotActiveError CLOSED)"
        and r = "fst (compensate ''saga-0'' ''alice'' 50 (JMessage (WalletNotActiveError CLOSED))
                        (debited_world 50 ACTIVE))"
        and w' = "snd (compensate ''saga-0'' ''alice'' 50 (JMessage (WalletNotActiveError CLOSED))
                         (debited_world 50 ACTIVE))"]
  by (simp add: model_defs no_store_fault_def)

text \<open>
  C3: what \<open>executeTransfer\<close> does with its notifications.  A transfer of 50 from alice
  (balance 100) to bob (new) completes.  Its two legs each wrote a journal event and an
  outbox row, but TRANSFER_INITIATED and TRANSFER_COMPLETED were handed to the broker
  directly: the outbox and the journal hold no row for them.  With the publisher
  disconnected the same transfer stops at the TRANSFER_INITIATED publish: the call
  throws, the saga stays PENDING, and the outbox holds nothing for the relay to retry.
\<close>

theorem C3_transfer_notifications_bypass_outbox:
  "fst (executeTransfer ''alice'' ''bob'' 50 None (alice_world 100 ACTIVE))
     = Inr (TransferResult ''saga-0'' COMPLETED ''alice'' ''bob'' 50)
   \<and> map eventType_ob
         (outbox_events (db (snd (executeTransfer ''alice'' ''bob'' 50 None
                                    (alice_world 100 ACTIVE)))))
     = [FUNDS_WITHDRAWN, FUNDS_DEPOSITED]
   \<and> map eventType_ev
         (wallet_events (db (snd (executeTransfer ''alice'' ''bob'' 50 None
                                    (alice_world 100 ACTIVE)))))
     = [WALLET_CREATED, FUNDS_WITHDRAWN, FUNDS_DEPOSITED]
   \<and> map eventType_msg
         (broker (snd (executeTransfer ''alice'' ''bob'' 50 None (alice_world 100 ACTIVE))))
     = [TRANSFER_INITIATED, FUNDS_WITHDRAWN, FUNDS_DEPOSITED, TRANSFER_COMPLETED]
   \<and> fst (executeTransfer ''alice'' ''bob'' 50 None
            ((alice_world 100 ACTIVE)\<lparr>connected := False\<rparr>))
     = Inl (GenericError ''EventPublisher not connected'')
   \<and> outbox_events (db (snd (executeTransfer ''alice'' ''bob'' 50 None
                               ((alice_world 100 ACTIVE)\<lparr>connected := False\<rparr>))))
     = []
   \<and> map_option state
         (find_saga ''saga-0'' (db (snd (executeTransfer ''alice'' ''bob'' 50 None
                                          ((alice_world 100 ACTIVE)\<lparr>connected := False\<rparr>)))))
     = Some PENDING"
  by (simp add: model_defs)

text \<open>
  C4: a transfer does not insert its idempotency record in the transaction of the state
  change.  A transfer of 50 from alice to bob under request id req-1 moves the money in
  two transactions, marks the saga COMPLETED in a third, publishes TRANSFER_COMPLETED,
  and only then saves the record, in a transaction of its own: the last commit holds
  that insert and nothing else.  A deposit under req-1 commits its record together with
  the wallet write, the journal event and the outbox row.

  So a transfer that fails between the credit and the record has moved the money and
  left no record.  From the state in which the transfer has been initiated and the
  publisher then lost its channel, the \<open>try\<close> block debits alice, credits bob, marks the
  saga COMPLETED and throws at the TRANSFER_COMPLETED publish; the \<open>catch\<close> block marks
  the completed saga FAILED and rethrows.  No record for req-1 exists, and the retry of
  req-1 runs a second transfer, saga-1: alice is debited twice.
\<close>

theorem C4_transfer_record_outside_transaction:
  "committed (db (snd (executeTransfer ''alice'' ''bob'' 50 (Some ''req-1'')
                         (alice_world 100 ACTIVE))))
     = [[WalletWrite ''bob'', EventInsert ''bob'' WALLET_CREATED],
        [SagaWrite ''saga-0'' PENDING],
        [WalletWrite ''alice'', SagaWrite ''saga-0'' DEBITED,
         EventInsert ''alice'' FUNDS_WITHDRAWN, OutboxInsert ''alice'' FUNDS_WITHDRAWN],
        [WalletWrite ''bob'', EventInsert ''bob'' FUNDS_DEPOSITED,
         OutboxInsert ''bob'' FUNDS_DEPOSITED],
        [SagaWrite ''saga-0'' COMPLETED],
        [IdempotencyInsert ''req-1'']]
   \<and> committed (db (snd (WalletService_deposit ''alice'' 50 (Some ''req-1'')
                           (alice_world 100 ACTIVE))))
     = [[WalletWrite ''alice'', EventInsert ''alice'' FUNDS_DEPOSITED,
         IdempotencyInsert ''req-1'', OutboxInsert ''alice'' FUNDS_DEPOSITED]]
   \<and> find_saga ''saga-0'' (db initiated_world) = Some saga_0
   \<and> map_option balance (wallets (db initiated_world) ''alice'') = Some 100
   \<and> fst (transferTry ''alice'' ''bob'' 50 (Some ''req-1'') saga_0 initiated_world)
     = Inl (GenericError ''EventPublisher not connected'')
   \<and> map_option state
         (find_saga ''saga-0''
            (db (snd (transferTry ''alice'' ''bob'' 50 (Some ''req-1'') saga_0 initiated_world))))
     = Some COMPLETED
   \<and> fst (transferCatch (GenericError ''EventPublisher not connected'') saga_0
            (snd (transferTry ''alice'' ''bob'' 50 (Some ''req-1'') saga_0 initiated_world)))
     = Inl (GenericError ''EventPublisher not connected'')
   \<and> map_option balance
         (wallets (db (snd (transferCatch (GenericError ''EventPublisher not connected'') saga_0
            (snd (transferTry ''alice'' ''bob'' 50 (Some ''req-1'') saga_0 initiated_world)))))
            ''alice'')
     = Some 50
   \<and> map_option balance
         (wallets (db (snd (transferCatch (GenericError ''EventPublisher not connected'') saga_0
            (snd (transferTry ''alice'' ''bob'' 50 (Some ''req-1'') saga_0 initiated_world)))))
            ''bob'')
     = Some 50
   \<and> map_option state
         (find_saga ''saga-0''
            (db (snd (transferCatch (GenericError ''EventPublisher not connected'') saga_0
              (snd (transferTry ''alice'' ''bob'' 50 (Some ''req-1'') saga_0 initiated_world))))))
     = Some FAILED
   \<and> idempotency_keys
         (db (snd (transferCatch (GenericError ''EventPublisher not connected'') saga_0
            (snd (transferTry ''alice'' ''bob'' 50 (Some ''req-1'') saga_0 initiated_world)))))
         ''req-1''
     = None
   \<and> fst (executeTransfer ''alice'' ''bob'' 50 (Some ''req-1'')
            ((snd (transferCatch (GenericError ''EventPublisher not connected'') saga_0
               (snd (transferTry ''alice'' ''bob'' 50 (Some ''req-1'') saga_0 initiated_world))))
             \<lparr>connected := True\<rparr>))
     = Inr (TransferResult ''saga-1'' COMPLETED ''alice'' ''bob'' 50)
   \<and> map_option balance
         (wallets (db (snd (executeTransfer ''alice'' ''bob'' 50 (Some ''req-1'')
            ((snd (transferCatch (GenericError ''EventPublisher not connected'') saga_0
               (snd (transferTry ''alice'' ''bob'' 50 (Some ''req-1'') saga_0 initiated_world))))
             \<lparr>connected := True\<rparr>)))) ''alice'')
     = Some 0
   \<and> map_option balance
         (wallets (db (snd (executeTransfer ''alice'' ''bob'' 50 (Some ''req-1'')
            ((snd (transferCatch (GenericError ''EventPublisher not connected'') saga_0
               (snd (transferTry ''alice'' ''bob'' 50 (Some ''req-1'') saga_0 initiated_world))))
             \<lparr>connected := True\<rparr>)))) ''bob'')
     = Some 100"
  by (simp add: model_defs)

text \<open>
  A request whose id has a record is answered with the stored response and the store is
  left as it is, for deposit, withdraw and transfer alike.
\<close>

lemma replay_returns_stored_response:
  assumes "requestId = Some rid" and "rid \<noteq> []"
    and "idempotency_keys (db w) rid = Some resp"
  shows "executeIdempotentTransaction walletId amount eventType operation requestId auto w
           = (Inr resp, w)"
    and "executeTransfer walletId toId amount requestId w = (Inr resp, w)"
    and "fst (WalletService_deposit walletId amount requestId w) = Inr resp"
    and "db (snd (WalletService_deposit walletId amount requestId w)) = db w"
    and "fst (WalletService_withdraw walletId amount requestId w) = Inr resp"
    and "db (snd (WalletService_withdraw walletId amount requestId w)) = db w"
proof -
  have lookup:
    "(if truthy requestId then idempotency_keys (db w) (the requestId) else None) = Some resp"
    using assms by (simp add: truthy_def)
  show "executeIdempotentTransaction walletId amount eventType operation requestId auto w
          = (Inr resp, w)"
    unfolding executeIdempotentTransaction_def lookup by simp
  show "fst (WalletService_deposit walletId amount requestId w) = Inr resp"
    and "db (snd (WalletService_deposit walletId amount requestId w)) = db w"
    by (simp_all add: WalletService_deposit_def executeIdempotentTransaction_def lookup
          setBalanceCache_def)
  show "executeTransfer walletId toId amount requestId w = (Inr resp, w)"
    unfolding executeTransfer_def lookup by simp
  show "fst (WalletService_withdraw walletId amount requestId w) = Inr resp"
    and "db (snd (WalletService_withdraw walletId amount requestId w)) = db w"
    by (simp_all add: WalletService_withdraw_def executeIdempotentTransaction_def lookup
          setBalanceCache_def)
qed

text \<open>
  The replay of a deposit writes the stored balance to the balance cache: after a
  deposit of 50 under req-1 (balance 150) and a further deposit of 25 (balance 175),
  replaying req-1 returns the stored balance 150 and overwrites the cached 175 with it.
\<close>

lemma deposit_replay_overwrites_cache:
  "redis (snd (WalletService_deposit ''alice'' 25 None
                   (snd (WalletService_deposit ''alice'' 50 (Some ''req-1'')
                           (alice_world 100 ACTIVE))))) ''wallet:balance:alice''
     = Some (RNumber 175, 30)
   \<and> fst (WalletService_deposit ''alice'' 50 (Some ''req-1'')
            (snd (WalletService_deposit ''alice'' 25 None
                    (snd (WalletService_deposit ''alice'' 50 (Some ''req-1'')
                            (alice_world 100 ACTIVE))))))
     = Inr (BalanceResponse 150 ''alice'')
   \<and> redis (snd (WalletService_deposit ''alice'' 50 (Some ''req-1'')
                   (snd (WalletService_deposit ''alice'' 25 None
                           (snd (WalletService_deposit ''alice'' 50 (Some ''req-1'')
                                   (alice_world 100 ACTIVE))))))) ''wallet:balance:alice''
     = Some (RNumber 150, 30)
   \<and> map_option balance
         (wallets (db (snd (WalletService_deposit ''alice'' 50 (Some ''req-1'')
                   (snd (WalletService_deposit ''alice'' 25 None
                           (snd (WalletService_deposit ''alice'' 50 (Some ''req-1'')
                                   (alice_world 100 ACTIVE)))))))) ''alice'')
     = Some 175"
  by (simp add: model_defs)

lemma replicate_10: "replicate 10 x = [x, x, x, x, x, x, x, x, x, x]"
  by (simp add: numeral_eq_Suc)

text \<open>
  C5: what the wallet engine does on a transient store error.  A deposit whose
  transaction hits a serialization failure (a retryable error by the saga engine's own
  test) is not retried: the error reaches the caller after the single attempt and no
  backoff is slept.  The saga engine's step, on the same failure, sleeps 50ms plus
  jitter and succeeds on the second attempt; when every attempt fails it gives up after
  10 attempts, having slept 50, 100, 200, ... capped at 5000 (jitter 0 here).
\<close>

theorem C5_wallet_engine_does_not_retry:
  "isRetryableError (QueryFailedError ''40001'')
   \<and> fst (WalletService_deposit ''alice'' 50 None
            ((alice_world 100 ACTIVE)\<lparr>faults := [Some (QueryFailedError ''40001'')]\<rparr>))
     = Inl (QueryFailedError ''40001'')
   \<and> sleeps (snd (WalletService_deposit ''alice'' 50 None
            ((alice_world 100 ACTIVE)\<lparr>faults := [Some (QueryFailedError ''40001'')]\<rparr>)))
     = []
   \<and> faults (snd (WalletService_deposit ''alice'' 50 None
            ((alice_world 100 ACTIVE)\<lparr>faults := [Some (QueryFailedError ''40001'')]\<rparr>)))
     = []
   \<and> fst (compensate ''saga-0'' ''alice'' 50 (JString ''credit failed'')
            ((debited_world 50 ACTIVE)\<lparr>faults := [Some (QueryFailedError ''40001'')],
                                        random := [1 / 2]\<rparr>))
     = None
   \<and> sleeps (snd (compensate ''saga-0'' ''alice'' 50 (JString ''credit failed'')
            ((debited_world 50 ACTIVE)\<lparr>faults := [Some (QueryFailedError ''40001'')],
                                        random := [1 / 2]\<rparr>)))
     = [100]
   \<and> fst (compensate ''saga-0'' ''alice'' 50 (JString ''credit failed'')
            ((debited_world 50 ACTIVE)\<lparr>faults := replicate 10 (Some (QueryFailedError ''40001''))\<rparr>))
     = Some (GenericError ''Operation failed due to concurrent modification. Please retry.'')
   \<and> sleeps (snd (compensate ''saga-0'' ''alice'' 50 (JString ''credit failed'')
            ((debited_world 50 ACTIVE)\<lparr>faults := replicate 10 (Some (QueryFailedError ''40001''))\<rparr>)))
     = [50, 100, 200, 400, 800, 1600, 3200, 5000, 5000, 5000]"
  by (simp add: model_defs replicate_10)

section \<open>Properties of the history query\<close>

lemma sorted_desc_getEventHistory:
  "sorted_wrt (\<lambda>a b. createdAt_ev a \<ge> createdAt_ev b) (getEventHistory walletId limit offset d)"
proof -
  let ?xs = "filter (\<lambda>e. walletId_ev e = walletId) (wallet_events d)"
  have "sorted (map createdAt_ev (sort_key createdAt_ev ?xs))" by (rule sorted_sort_key)
  then have "sorted_wrt (\<lambda>a b. createdAt_ev a \<le> createdAt_ev b) (sort_key createdAt_ev ?xs)"
    by (simp add: sorted_map)
  then have "sorted_wrt (\<lambda>a b. createdAt_ev a \<ge> createdAt_ev b)
               (rev (sort_key createdAt_ev ?xs))"
    by (simp add: sorted_wrt_rev)
  then show ?thesis
    unfolding getEventHistory_def by (intro sorted_wrt_take sorted_wrt_drop)
qed

lemma length_getEventHistory:
  "length (getEventHistory walletId limit offset d) =
     min limit (length (filter (\<lambda>e. walletId_ev e = walletId) (wallet_events d)) - offset)"
  by (simp add: getEventHistory_def min.commute)

lemma set_getEventHistory:
  "e \<in> set (getEventHistory walletId limit offset d) \<Longrightarrow> walletId_ev e = walletId"
proof -
  assume "e \<in> set (getEventHistory walletId limit offset d)"
  then have "e \<in> set (rev (sort_key createdAt_ev
                 (filter (\<lambda>e. walletId_ev e = walletId) (wallet_events d))))"
    unfolding getEventHistory_def by (meson in_set_dropD in_set_takeD)
  then show ?thesis by simp
qed

text \<open>
  C8, as the claim states it, fails: nothing caps the limit.  With 101 events in the
  journal of a wallet, a request with \<open>limit=101\<close> returns all 101.
\<close>

theorem C8_history_limit_counterexample:
  "length (WalletController_getHistory ''alice'' (Some 101) None
            (empty_database\<lparr>wallet_events :=
               replicate 101 (new_WalletEvent ''alice'' FUNDS_DEPOSITED ''USD'' (Some 1) None)\<rparr>))
   = 101"
  by (simp add: WalletController_getHistory_def WalletService_getHistory_def
        length_getEventHistory empty_database_def new_WalletEvent_def)

text \<open>
  C8, amended: \<open>getHistory\<close> returns events of the wallet ordered by \<open>created_at\<close>
  descending, and as many of them as the requested limit allows: the limit is 100 when
  the request gives none (or 0) and is otherwise taken as requested, without a cap.
\<close>

theorem C8_history:
  assumes "limit = (case query_limit of None \<Rightarrow> 100 | Some l \<Rightarrow> if l = 0 then 100 else l)"
    and "offset = (case query_offset of None \<Rightarrow> 0 | Some k \<Rightarrow> k)"
  shows "sorted_wrt (\<lambda>a b. createdAt_ev a \<ge> createdAt_ev b)
           (WalletController_getHistory walletId query_limit query_offset d)
       \<and> length (WalletController_getHistory walletId query_limit query_offset d)
           = min limit (length (filter (\<lambda>e. walletId_ev e = walletId) (wallet_events d)) - offset)
       \<and> list_all (\<lambda>e. walletId_ev e = walletId)
           (WalletController_getHistory walletId query_limit query_offset d)"
proof -
  have off: "(case query_offset of None \<Rightarrow> 0 | Some k \<Rightarrow> if k = 0 then 0 else k) = offset"
    using assms(2) by (cases query_offset) auto
  have eq: "WalletController_getHistory walletId query_limit query_offset d
            = WalletService_getHistory walletId limit offset d"
    by (simp add: WalletController_getHistory_def assms(1) off)
  have "sorted_wrt (\<lambda>a b. createdAt_ev a \<ge> createdAt_ev b)
          (WalletService_getHistory walletId limit offset d)"
    using sorted_desc_getEventHistory [of walletId limit offset d]
    by (simp add: WalletService_getHistory_def sorted_wrt_map)
  moreover have "length (WalletService_getHistory walletId limit offset d)
           = min limit (length (filter (\<lambda>e. walletId_ev e = walletId) (wallet_events d)) - offset)"
    by (simp add: WalletService_getHistory_def length_getEventHistory)
  moreover have "list_all (\<lambda>e. walletId_ev e = walletId)
           (WalletService_getHistory walletId limit offset d)"
    by (auto simp: WalletService_getHistory_def list_all_iff dest: set_getEventHistory)
  ultimately show ?thesis by (simp add: eq)
qed

theorem C8_history_witness:
  "map createdAt_ev
     (WalletController_getHistory ''alice'' (Some 2) None
        (empty_database\<lparr>wallet_events :=
           [(new_WalletEvent ''alice'' WALLET_CREATED ''USD'' None None)\<lparr>createdAt_ev := 1\<rparr>,
            (new_WalletEvent ''bob'' FUNDS_DEPOSITED ''USD'' (Some 7) None)\<lparr>createdAt_ev := 2\<rparr>,
            (new_WalletEvent ''alice'' FUNDS_DEPOSITED ''USD'' (Some 100) None)\<lparr>createdAt_ev := 3\<rparr>,
            (new_WalletEvent ''alice'' FUNDS_WITHDRAWN ''USD'' (Some 20) None)\<lparr>createdAt_ev := 4\<rparr>]\<rparr>))
   = [4, 3]"
  using C8_history [of 2 "Some 2" 0 None "''alice''"
        "empty_database\<lparr>wallet_events :=
           [(new_WalletEvent ''alice'' WALLET_CREATED ''USD'' None None)\<lparr>createdAt_ev := 1\<rparr>,
            (new_WalletEvent ''bob'' FUNDS_DEPOSITED ''USD'' (Some 7) None)\<lparr>createdAt_ev := 2\<rparr>,
            (new_WalletEvent ''alice'' FUNDS_DEPOSITED ''USD'' (Some 100) None)\<lparr>createdAt_ev := 3\<rparr>,
            (new_WalletEvent ''alice'' FUNDS_WITHDRAWN ''USD'' (Some 20) None)\<lparr>createdAt_ev := 4\<rparr>]\<rparr>"]
  by (simp add: WalletController_getHistory_def WalletService_getHistory_def
        getEventHistory_def empty_database_def new_WalletEvent_def)

section \<open>Properties of the fraud detection consumer\<close>

lemmas consumer_defs = idempotencyPayload_def generateIdempotencyKey_def acquireLock_def
  saveFraudAlert_def detectRapidWithdrawals_def detectHighValueTransaction_def
  processFraudChecks_def handleProcessingError_def handleMessage_def IDEMPOTENCY_TTL_def
  RETRY_DELAYS_def RETRY_MAX_ATTEMPTS_def withdrawal_20000_def default_fraud_config_def
  idle_consumer_def digit_def Let_def

lemma processFraudChecks_keeps:
  "kv (processFraudChecks T cfg event c) = kv c"
  "channel (processFraudChecks T cfg event c) = channel c"
  by (simp_all add: processFraudChecks_def detectRapidWithdrawals_def
        detectHighValueTransaction_def saveFraudAlert_def Let_def split: option.splits)

text \<open>
  C9, as the claim states it, fails: the string that is hashed joins the four fields with
  \<open>-\<close>, not with \<open>|\<close>.
\<close>

theorem C9_idempotency_key_counterexample:
  "idempotencyPayload withdrawal_20000
     = ''alice-FUNDS_WITHDRAWN-2024-01-01T00:00:00.000Z-20000''
   \<and> spec_idempotencyPayload withdrawal_20000
     = ''alice|FUNDS_WITHDRAWN|2024-01-01T00:00:00.000Z|20000''
   \<and> idempotencyPayload withdrawal_20000 \<noteq> spec_idempotencyPayload withdrawal_20000"
  by (simp add: idempotencyPayload_def spec_idempotencyPayload_def withdrawal_20000_def
        digit_def)

text \<open>
  C9, amended: the idempotency key of a consumed message is the hex-encoded SHA-256 (the
  digest \<open>H\<close>) of walletId, eventType, timestamp and the amount joined with \<open>-\<close>, the
  amount being the empty string when it is absent or 0.  Processing is deduplicated by
  a set-if-absent on \<open>processed_event:<key>\<close> with a 24 hour expiry: if the key exists
  the message is acked and nothing else changes, so no rule is applied; otherwise the key
  is set, the rules are applied and the message is acked.
\<close>

theorem C9_fraud_idempotency:
  assumes "content msg = Some event" and "redis_fault c = None"
    and "key = ''processed_event:'' @
               H (walletId_p event @ ''-'' @ eventType_p event @ ''-'' @ timestamp_p event @ ''-'' @
                  (case amount_p event of None \<Rightarrow> []
                   | Some a \<Rightarrow> if a = 0 then [] else show_nat a))"
  shows "''processed_event:'' @ generateIdempotencyKey H event = key
     \<and> (if kv c key \<noteq> None
        then handleMessage H T cfg msg c = c\<lparr>channel := channel c @ [Ack]\<rparr>
        else kv (handleMessage H T cfg msg c) key = Some (''true'', 24 * 60 * 60)
           \<and> handleMessage H T cfg msg c =
               (processFraudChecks T cfg event
                  (c\<lparr>kv := (kv c)(key \<mapsto> (''true'', 24 * 60 * 60))\<rparr>))
               \<lparr>channel := channel c @ [Ack]\<rparr>)"
proof -
  have k: "''processed_event:'' @ generateIdempotencyKey H event = key"
    using assms(3) by (simp add: generateIdempotencyKey_def idempotencyPayload_def)
  show ?thesis
  proof (cases "kv c key")
    case None
    then show ?thesis using assms(1,2) k
      by (simp add: handleMessage_def acquireLock_def IDEMPOTENCY_TTL_def Let_def
            processFraudChecks_keeps)
  next
    case (Some v)
    then show ?thesis using assms(1,2) k
      by (simp add: handleMessage_def acquireLock_def Let_def)
  qed
qed

theorem C9_fraud_idempotency_witness:
  "map alertType
     (alerts (handleMessage id (\<lambda>s. 1704067200000) default_fraud_config
                \<lparr>content = Some withdrawal_20000, retry_count = None,
                 routingKey = ''wallet.funds_withdrawn''\<rparr> idle_consumer))
     = [''high_value_transaction'']
   \<and> handleMessage id (\<lambda>s. 1704067200000) default_fraud_config
        \<lparr>content = Some withdrawal_20000, retry_count = None,
         routingKey = ''wallet.funds_withdrawn''\<rparr>
        (handleMessage id (\<lambda>s. 1704067200000) default_fraud_config
           \<lparr>content = Some withdrawal_20000, retry_count = None,
            routingKey = ''wallet.funds_withdrawn''\<rparr> idle_consumer)
     = (handleMessage id (\<lambda>s. 1704067200000) default_fraud_config
           \<lparr>content = Some withdrawal_20000, retry_count = None,
            routingKey = ''wallet.funds_withdrawn''\<rparr> idle_consumer)
        \<lparr>channel := [Ack, Ack]\<rparr>"
proof -
  let ?msg = "\<lparr>content = Some withdrawal_20000, retry_count = None,
               routingKey = ''wallet.funds_withdrawn''\<rparr>"
  let ?T = "\<lambda>s::string. 1704067200000::int"
  let ?c1 = "handleMessage id ?T default_fraud_config ?msg idle_consumer"
  let ?key = "''processed_event:alice-FUNDS_WITHDRAWN-2024-01-01T00:00:00.000Z-20000''"
  have p1: "content ?msg = Some withdrawal_20000" by simp
  have p2: "redis_fault ?c1 = None" by (simp add: consumer_defs)
  have p3: "?key = ''processed_event:'' @
               id (walletId_p withdrawal_20000 @ ''-'' @ eventType_p withdrawal_20000 @ ''-'' @
                   timestamp_p withdrawal_20000 @ ''-'' @
                  (case amount_p withdrawal_20000 of None \<Rightarrow> []
                   | Some a \<Rightarrow> if a = 0 then [] else show_nat a))"
    by (simp add: withdrawal_20000_def digit_def)
  have seen: "kv ?c1 ?key \<noteq> None" and ch: "channel ?c1 = [Ack]"
    and al: "map alertType (alerts ?c1) = [''high_value_transaction'']"
    by (simp_all add: consumer_defs)
  note th = C9_fraud_idempotency
         [where H = id and event = withdrawal_20000 and msg = ?msg and c = ?c1
            and key = ?key and T = ?T and cfg = default_fraud_config, OF p1 p2 p3]
  have "handleMessage id ?T default_fraud_config ?msg ?c1 = ?c1\<lparr>channel := channel ?c1 @ [Ack]\<rparr>"
    by (rule th [unfolded if_P [OF seen], THEN conjunct2])
  with ch al show ?thesis by simp
qed

end
